theory Spec2Isabelle
  imports Complex_Main
begin

section \<open>The projection engine of the business-case model\<close>

text \<open>
  This theory embeds \<^verbatim>\<open>src/calculations.ts\<close> (the functions
  \<^verbatim>\<open>getVariableCostPerUnit\<close> and \<^verbatim>\<open>buildScenarioResult\<close>) together with the
  interfaces of \<^verbatim>\<open>src/types.ts\<close> they use.

  Modelling decisions:
  \<^item> A TypeScript \<^verbatim>\<open>number\<close> that carries a quantity (money, units, percentages, the
    horizon) is a \<open>real\<close>. The code is embedded twice. In \<open>buildScenarioResult\<close> the
    arithmetic is the exact arithmetic of the formulas; it serves the properties that do not
    depend on rounding. In \<open>buildScenarioResult64\<close> every arithmetic operation rounds its
    result to the nearest IEEE-754 double, as JavaScript does; it serves the two properties
    that compare sums or products taken in different orders. The values NaN and Infinity
    are in neither embedding.
  \<^item> The loop counter \<^verbatim>\<open>i\<close>, and the two numbers derived from it alone
    (\<^verbatim>\<open>year\<close> and \<^verbatim>\<open>paybackYear\<close>, both \<^verbatim>\<open>yearIndex + 1\<close>), are \<open>nat\<close>.
  \<^item> \<^verbatim>\<open>number | null\<close> is an \<open>option\<close>; \<open>None\<close> is \<^verbatim>\<open>null\<close>.
  \<^item> \<^verbatim>\<open>Math.pow(b, i)\<close> with the counter \<^verbatim>\<open>i\<close> as exponent is \<open>b ^ i\<close> in the exact
    embedding and a parameter of the embedding in doubles.
  \<^item> \<^verbatim>\<open>xs[i] ?? 0\<close> reads the array where the index is in range and gives \<open>0\<close>
    where JavaScript gives \<^verbatim>\<open>undefined\<close>.
\<close>

subsection \<open>Data model (types.ts)\<close>

datatype ProductType = software | hardware

record GeneralInputs =
  productName :: string
  productType :: ProductType
  currency :: string
  years :: real

record CostInputs =
  devCapex :: real
  launchMarketingCapex :: real
  infraCostPerUser :: real
  licenseCostPerUser :: real
  manufacturingCostPerUnit :: real
  shippingCostPerUnit :: real
  packagingCostPerUnit :: real
  supportCostPerUnit :: real
  annualFixedOpex :: real

record MarketInputs =
  tamUnitsPerYear :: "real list"
  samPct :: real
  somPct :: real
  adoptionPctPerYear :: "real list"

record RevenueInputs =
  basePricePerUnit :: real
  annualPriceGrowthPct :: real

text \<open>The field \<^verbatim>\<open>id\<close> of a scenario is \<open>id_scn\<close> here (\<open>id\<close> is the identity of HOL).\<close>

record Scenario =
  id_scn :: string
  name :: string
  adoptionMultiplier :: real
  priceMultiplier :: real

record YearlyResult =
  year :: nat
  pricePerUnit :: real
  units :: real
  revenue :: real
  variableCost :: real
  grossProfit :: real
  grossMarginPct :: real
  fixedCost :: real
  netProfit :: real
  netMarginPct :: real
  cumulativeCashFlow :: real

record ScenarioResult =
  scenario :: Scenario
  yearly :: "YearlyResult list"
  totalRevenue :: real
  totalNetProfit :: real
  paybackYear :: "nat option"
  breakEvenUnits :: "real option"

subsection \<open>The variable cost per unit\<close>

fun getVariableCostPerUnit :: "ProductType \<Rightarrow> CostInputs \<Rightarrow> real" where
  "getVariableCostPerUnit software cost =
     infraCostPerUser cost + licenseCostPerUser cost + supportCostPerUnit cost"
| "getVariableCostPerUnit hardware cost =
     manufacturingCostPerUnit cost + shippingCostPerUnit cost + packagingCostPerUnit cost
       + supportCostPerUnit cost"

subsection \<open>The year loop\<close>

text \<open>\<^verbatim>\<open>xs[i] ?? 0\<close> on a \<^verbatim>\<open>number[]\<close>.\<close>

definition nth_or_zero :: "real list \<Rightarrow> nat \<Rightarrow> real" where
  "nth_or_zero xs i = (if i < length xs then xs ! i else 0)"

text \<open>
  The variables the loop of \<^verbatim>\<open>buildScenarioResult\<close> mutates: the array \<^verbatim>\<open>yearly\<close>,
  the accumulator \<^verbatim>\<open>cumulativeCashFlow\<close> and the latch \<^verbatim>\<open>paybackYear\<close>.
\<close>

record LoopState =
  st_yearly :: "YearlyResult list"
  st_cumulativeCashFlow :: real
  st_paybackYear :: "nat option"

text \<open>One iteration of the loop body (lines 44 to 87), at counter \<open>i\<close>.\<close>

definition loopBody ::
  "CostInputs \<Rightarrow> MarketInputs \<Rightarrow> RevenueInputs \<Rightarrow> Scenario \<Rightarrow> real \<Rightarrow> nat \<Rightarrow> LoopState \<Rightarrow> LoopState"
where
  "loopBody cost market revIn scn unitVariableCost i st =
    (let yearIndex = i;
         basePrice = basePricePerUnit revIn * (1 + annualPriceGrowthPct revIn / 100) ^ i;
         pricePerUnit_y = basePrice * priceMultiplier scn;
         tamUnits = nth_or_zero (tamUnitsPerYear market) i;
         samUnits = tamUnits * (samPct market / 100);
         somUnits = samUnits * (somPct market / 100);
         adoptionPct = nth_or_zero (adoptionPctPerYear market) i / 100;
         baseUnits = somUnits * adoptionPct;
         units_y = baseUnits * adoptionMultiplier scn;
         revenueYear = pricePerUnit_y * units_y;
         variableCost_y = unitVariableCost * units_y;
         grossProfit_y = revenueYear - variableCost_y;
         fixedCost_y = annualFixedOpex cost;
         netProfit_y = grossProfit_y - fixedCost_y;
         cumulativeCashFlow_y = st_cumulativeCashFlow st + netProfit_y;
         paybackYear_y =
           (if st_paybackYear st = None \<and> cumulativeCashFlow_y \<ge> 0
            then Some (yearIndex + 1) else st_paybackYear st);
         grossMarginPct_y = (if revenueYear > 0 then (grossProfit_y / revenueYear) * 100 else 0);
         netMarginPct_y = (if revenueYear > 0 then (netProfit_y / revenueYear) * 100 else 0)
     in \<lparr> st_yearly = st_yearly st @
            [\<lparr> year = yearIndex + 1,
               pricePerUnit = pricePerUnit_y,
               units = units_y,
               revenue = revenueYear,
               variableCost = variableCost_y,
               grossProfit = grossProfit_y,
               grossMarginPct = grossMarginPct_y,
               fixedCost = fixedCost_y,
               netProfit = netProfit_y,
               netMarginPct = netMarginPct_y,
               cumulativeCashFlow = cumulativeCashFlow_y \<rparr>],
          st_cumulativeCashFlow = cumulativeCashFlow_y,
          st_paybackYear = paybackYear_y \<rparr>)"

text \<open>
  \<^verbatim>\<open>for (let i = 0; i < years; i++) { ... }\<close>, from counter \<open>i\<close> on. The horizon is a
  \<^verbatim>\<open>number\<close>: the test \<^verbatim>\<open>i < years\<close> compares the counter with a real.
\<close>

function yearLoop ::
  "real \<Rightarrow> CostInputs \<Rightarrow> MarketInputs \<Rightarrow> RevenueInputs \<Rightarrow> Scenario \<Rightarrow> real \<Rightarrow> nat \<Rightarrow> LoopState \<Rightarrow> LoopState"
where
  "yearLoop yrs cost market revIn scn unitVariableCost i st =
    (if real i < yrs
     then yearLoop yrs cost market revIn scn unitVariableCost (Suc i)
            (loopBody cost market revIn scn unitVariableCost i st)
     else st)"
  by pat_completeness auto
termination
proof (relation "measure (\<lambda>(yrs, cost, market, revIn, scn, u, i, st). nat \<lceil>yrs\<rceil> - i)")
  show "wf (measure (\<lambda>(yrs :: real, cost :: CostInputs, market :: MarketInputs,
                       revIn :: RevenueInputs, scn :: Scenario, u :: real, i :: nat,
                       st :: LoopState). nat \<lceil>yrs\<rceil> - i))"
    by simp
next
  fix yrs :: real and cost :: CostInputs and market :: MarketInputs and revIn :: RevenueInputs
    and scn :: Scenario and unitVariableCost :: real and i :: nat and st :: LoopState
  assume "real i < yrs"
  then have "int i < \<lceil>yrs\<rceil>"
    by linarith
  then show "((yrs, cost, market, revIn, scn, unitVariableCost, Suc i,
               loopBody cost market revIn scn unitVariableCost i st),
              (yrs, cost, market, revIn, scn, unitVariableCost, i, st))
             \<in> measure (\<lambda>(yrs, cost, market, revIn, scn, u, i, st). nat \<lceil>yrs\<rceil> - i)"
    by simp
qed

declare yearLoop.simps [simp del]

subsection \<open>The projection\<close>

definition buildScenarioResult ::
  "GeneralInputs \<Rightarrow> CostInputs \<Rightarrow> MarketInputs \<Rightarrow> RevenueInputs \<Rightarrow> Scenario \<Rightarrow> ScenarioResult"
where
  "buildScenarioResult general cost market revIn scn =
    (let yrs = years general;
         upfrontCapex = devCapex cost + launchMarketingCapex cost;
         unitVariableCost = getVariableCostPerUnit (productType general) cost;
         st = yearLoop yrs cost market revIn scn unitVariableCost 0
                \<lparr> st_yearly = [], st_cumulativeCashFlow = - upfrontCapex, st_paybackYear = None \<rparr>;
         totalRevenue_r = foldl (\<lambda>s y. s + revenue y) 0 (st_yearly st);
         totalNetProfit_r = foldl (\<lambda>s y. s + netProfit y) 0 (st_yearly st);
         contributionMargin = basePricePerUnit revIn - unitVariableCost;
         breakEvenUnits_r =
           (if contributionMargin > 0 then Some (upfrontCapex / contributionMargin) else None)
     in \<lparr> scenario = scn,
          yearly = st_yearly st,
          totalRevenue = totalRevenue_r,
          totalNetProfit = totalNetProfit_r,
          paybackYear = st_paybackYear st,
          breakEvenUnits = breakEvenUnits_r \<rparr>)"

subsection \<open>Auxiliary definitions\<close>

text \<open>
  The state before the first iteration, the state after \<open>n\<close> iterations, and the
  closed forms of the figures of year \<open>i + 1\<close>. They are used in the proofs only;
  \<open>yearLoop_from_zero\<close> and \<open>build_row\<close> below relate them to the loop.
\<close>

definition initState :: "CostInputs \<Rightarrow> LoopState" where
  "initState cost =
     \<lparr> st_yearly = [], st_cumulativeCashFlow = - (devCapex cost + launchMarketingCapex cost),
       st_paybackYear = None \<rparr>"

primrec runYears ::
  "CostInputs \<Rightarrow> MarketInputs \<Rightarrow> RevenueInputs \<Rightarrow> Scenario \<Rightarrow> real \<Rightarrow> LoopState \<Rightarrow> nat \<Rightarrow> LoopState"
where
  "runYears c m r s u st0 0 = st0"
| "runYears c m r s u st0 (Suc n) = loopBody c m r s u n (runYears c m r s u st0 n)"

definition unitsAt :: "MarketInputs \<Rightarrow> Scenario \<Rightarrow> nat \<Rightarrow> real" where
  "unitsAt m s i =
     nth_or_zero (tamUnitsPerYear m) i * (samPct m / 100) * (somPct m / 100)
       * (nth_or_zero (adoptionPctPerYear m) i / 100) * adoptionMultiplier s"

definition priceAt :: "RevenueInputs \<Rightarrow> Scenario \<Rightarrow> nat \<Rightarrow> real" where
  "priceAt r s i = basePricePerUnit r * (1 + annualPriceGrowthPct r / 100) ^ i * priceMultiplier s"

definition netProfitAt ::
  "CostInputs \<Rightarrow> MarketInputs \<Rightarrow> RevenueInputs \<Rightarrow> Scenario \<Rightarrow> real \<Rightarrow> nat \<Rightarrow> real" where
  "netProfitAt c m r s u i =
     priceAt r s i * unitsAt m s i - u * unitsAt m s i - annualFixedOpex c"

definition yearRow ::
  "CostInputs \<Rightarrow> MarketInputs \<Rightarrow> RevenueInputs \<Rightarrow> Scenario \<Rightarrow> real \<Rightarrow> nat \<Rightarrow> real \<Rightarrow> YearlyResult"
where
  "yearRow c m r s u i cum =
     \<lparr> year = i + 1,
       pricePerUnit = priceAt r s i,
       units = unitsAt m s i,
       revenue = priceAt r s i * unitsAt m s i,
       variableCost = u * unitsAt m s i,
       grossProfit = priceAt r s i * unitsAt m s i - u * unitsAt m s i,
       grossMarginPct =
         (if priceAt r s i * unitsAt m s i > 0
          then (priceAt r s i * unitsAt m s i - u * unitsAt m s i)
                 / (priceAt r s i * unitsAt m s i) * 100
          else 0),
       fixedCost = annualFixedOpex c,
       netProfit = netProfitAt c m r s u i,
       netMarginPct =
         (if priceAt r s i * unitsAt m s i > 0
          then netProfitAt c m r s u i / (priceAt r s i * unitsAt m s i) * 100
          else 0),
       cumulativeCashFlow = cum + netProfitAt c m r s u i \<rparr>"

subsection \<open>Example inputs\<close>

text \<open>
  The worked example of the specification (software, two years), a hardware variant, a
  scenario with multipliers other than 1, a five-year run whose cumulative cash flow
  crosses zero, dips below it and crosses again, per-year sequences shorter than the
  horizon, a horizon of two and a half years, and a horizon of zero with no upfront cost.
\<close>

definition ex_general :: GeneralInputs where
  "ex_general = \<lparr> productName = ''P'', productType = software, currency = ''EUR'', years = 2 \<rparr>"

definition ex_cost :: CostInputs where
  "ex_cost = \<lparr> devCapex = 1000, launchMarketingCapex = 0, infraCostPerUser = 1,
      licenseCostPerUser = 0, manufacturingCostPerUnit = 40, shippingCostPerUnit = 5,
      packagingCostPerUnit = 3, supportCostPerUnit = 0, annualFixedOpex = 0 \<rparr>"

definition ex_market :: MarketInputs where
  "ex_market = \<lparr> tamUnitsPerYear = [1000, 1000], samPct = 100, somPct = 100,
      adoptionPctPerYear = [50, 50] \<rparr>"

definition ex_revenue :: RevenueInputs where
  "ex_revenue = \<lparr> basePricePerUnit = 10, annualPriceGrowthPct = 0 \<rparr>"

definition ex_scenario :: Scenario where
  "ex_scenario = \<lparr> id_scn = ''base'', name = ''Base'', adoptionMultiplier = 1, priceMultiplier = 1 \<rparr>"

definition hw_general :: GeneralInputs where
  "hw_general = \<lparr> productName = ''P'', productType = hardware, currency = ''EUR'', years = 2 \<rparr>"

definition up_scenario :: Scenario where
  "up_scenario = \<lparr> id_scn = ''up'', name = ''Upside'', adoptionMultiplier = 3 / 2, priceMultiplier = 2 \<rparr>"

definition dip_general :: GeneralInputs where
  "dip_general = \<lparr> productName = ''P'', productType = software, currency = ''EUR'', years = 5 \<rparr>"

definition dip_cost :: CostInputs where
  "dip_cost = \<lparr> devCapex = 1000, launchMarketingCapex = 0, infraCostPerUser = 1,
      licenseCostPerUser = 0, manufacturingCostPerUnit = 40, shippingCostPerUnit = 5,
      packagingCostPerUnit = 3, supportCostPerUnit = 0, annualFixedOpex = 500 \<rparr>"

definition dip_market :: MarketInputs where
  "dip_market = \<lparr> tamUnitsPerYear = [100, 200, 0, 0, 200], samPct = 100, somPct = 100,
      adoptionPctPerYear = [100, 100, 100, 100, 100] \<rparr>"

definition short_general :: GeneralInputs where
  "short_general = \<lparr> productName = ''P'', productType = software, currency = ''EUR'', years = 3 \<rparr>"

definition short_market :: MarketInputs where
  "short_market = \<lparr> tamUnitsPerYear = [1000], samPct = 100, somPct = 100,
      adoptionPctPerYear = [50, 50] \<rparr>"

definition frac_general :: GeneralInputs where
  "frac_general = \<lparr> productName = ''P'', productType = software, currency = ''EUR'', years = 5 / 2 \<rparr>"

definition frac_market :: MarketInputs where
  "frac_market = \<lparr> tamUnitsPerYear = [0, 0, 1000], samPct = 100, somPct = 100,
      adoptionPctPerYear = [50, 50, 50] \<rparr>"

definition zero_general :: GeneralInputs where
  "zero_general = \<lparr> productName = ''P'', productType = software, currency = ''EUR'', years = 0 \<rparr>"

definition free_cost :: CostInputs where
  "free_cost = \<lparr> devCapex = 0, launchMarketingCapex = 0, infraCostPerUser = 1,
      licenseCostPerUser = 0, manufacturingCostPerUnit = 40, shippingCostPerUnit = 5,
      packagingCostPerUnit = 3, supportCostPerUnit = 0, annualFixedOpex = 0 \<rparr>"

subsection \<open>Double-precision arithmetic\<close>

text \<open>
  \<open>round64\<close> rounds a real to the nearest IEEE-754 binary64 number, ties to the even
  significand (the rounding of every JavaScript arithmetic operation): \<open>binade x\<close> is the
  exponent \<open>k\<close> with \<open>2 powi k \<le> \<bar>x\<bar> < 2 powi (k + 1)\<close>, the doubles of that binade are the
  multiples of \<open>2 powi (k - 52)\<close>, and \<open>rne\<close> picks the nearest multiple. The exponent is
  not bounded: the model is that of doubles for results of magnitude between \<open>2 powi - 1022\<close>
  and \<open>2 powi 1024\<close> and for 0, without overflow to Infinity and without subnormal numbers.
\<close>

definition rne :: "real \<Rightarrow> int" where
  "rne q =
     (let f = \<lfloor>q\<rfloor>; r = q - of_int f
      in if r < 1 / 2 then f else if 1 / 2 < r then f + 1 else if even f then f else f + 1)"

definition binade :: "real \<Rightarrow> int" where
  "binade x = \<lfloor>log 2 \<bar>x\<bar>\<rfloor>"

definition round64 :: "real \<Rightarrow> real" where
  "round64 x =
     (if x = 0 then 0
      else of_int (rne (x / 2 powi (binade x - 52))) * 2 powi (binade x - 52))"


text \<open>\<^verbatim>\<open>a + b\<close>, \<^verbatim>\<open>a - b\<close>, \<^verbatim>\<open>a * b\<close> and \<^verbatim>\<open>a / b\<close> on doubles.\<close>

definition dadd :: "real \<Rightarrow> real \<Rightarrow> real" where
  "dadd a b = round64 (a + b)"

definition dsub :: "real \<Rightarrow> real \<Rightarrow> real" where
  "dsub a b = round64 (a - b)"

definition dmul :: "real \<Rightarrow> real \<Rightarrow> real" where
  "dmul a b = round64 (a * b)"

definition ddiv :: "real \<Rightarrow> real \<Rightarrow> real" where
  "ddiv a b = round64 (a / b)"


text \<open>
  ECMAScript leaves the accuracy of \<^verbatim>\<open>Math.pow\<close> to the implementation, so the embedding
  below takes it as the parameter \<open>pw\<close>. \<open>pow64\<close> is the correctly rounded power; the
  example runs use it with base 1 only, where every implementation returns 1.
\<close>

definition pow64 :: "real \<Rightarrow> nat \<Rightarrow> real" where
  "pow64 b i = round64 (b ^ i)"


subsection \<open>The projection in double-precision arithmetic\<close>

text \<open>
  \<^verbatim>\<open>getVariableCostPerUnit\<close> and \<^verbatim>\<open>buildScenarioResult\<close> once more, statement by
  statement, with the rounded operations. Unary minus and the comparisons are exact on
  doubles.
\<close>

fun getVariableCostPerUnit64 :: "ProductType \<Rightarrow> CostInputs \<Rightarrow> real" where
  "getVariableCostPerUnit64 software cost =
     dadd (dadd (infraCostPerUser cost) (licenseCostPerUser cost)) (supportCostPerUnit cost)"
| "getVariableCostPerUnit64 hardware cost =
     dadd (dadd (dadd (manufacturingCostPerUnit cost) (shippingCostPerUnit cost))
             (packagingCostPerUnit cost))
       (supportCostPerUnit cost)"

definition loopBody64 ::
  "(real \<Rightarrow> nat \<Rightarrow> real) \<Rightarrow> CostInputs \<Rightarrow> MarketInputs \<Rightarrow> RevenueInputs \<Rightarrow> Scenario \<Rightarrow> real \<Rightarrow> nat
     \<Rightarrow> LoopState \<Rightarrow> LoopState"
where
  "loopBody64 pw cost market revIn scn unitVariableCost i st =
    (let yearIndex = i;
         basePrice =
           dmul (basePricePerUnit revIn) (pw (dadd 1 (ddiv (annualPriceGrowthPct revIn) 100)) i);
         pricePerUnit_y = dmul basePrice (priceMultiplier scn);
         tamUnits = nth_or_zero (tamUnitsPerYear market) i;
         samUnits = dmul tamUnits (ddiv (samPct market) 100);
         somUnits = dmul samUnits (ddiv (somPct market) 100);
         adoptionPct = ddiv (nth_or_zero (adoptionPctPerYear market) i) 100;
         baseUnits = dmul somUnits adoptionPct;
         units_y = dmul baseUnits (adoptionMultiplier scn);
         revenueYear = dmul pricePerUnit_y units_y;
         variableCost_y = dmul unitVariableCost units_y;
         grossProfit_y = dsub revenueYear variableCost_y;
         fixedCost_y = annualFixedOpex cost;
         netProfit_y = dsub grossProfit_y fixedCost_y;
         cumulativeCashFlow_y = dadd (st_cumulativeCashFlow st) netProfit_y;
         paybackYear_y =
           (if st_paybackYear st = None \<and> cumulativeCashFlow_y \<ge> 0
            then Some (yearIndex + 1) else st_paybackYear st);
         grossMarginPct_y =
           (if revenueYear > 0 then dmul (ddiv grossProfit_y revenueYear) 100 else 0);
         netMarginPct_y =
           (if revenueYear > 0 then dmul (ddiv netProfit_y revenueYear) 100 else 0)
     in \<lparr> st_yearly = st_yearly st @
            [\<lparr> year = yearIndex + 1,
               pricePerUnit = pricePerUnit_y,
               units = units_y,
               revenue = revenueYear,
               variableCost = variableCost_y,
               grossProfit = grossProfit_y,
               grossMarginPct = grossMarginPct_y,
               fixedCost = fixedCost_y,
               netProfit = netProfit_y,
               netMarginPct = netMarginPct_y,
               cumulativeCashFlow = cumulativeCashFlow_y \<rparr>],
          st_cumulativeCashFlow = cumulativeCashFlow_y,
          st_paybackYear = paybackYear_y \<rparr>)"

function yearLoop64 ::
  "(real \<Rightarrow> nat \<Rightarrow> real) \<Rightarrow> real \<Rightarrow> CostInputs \<Rightarrow> MarketInputs \<Rightarrow> RevenueInputs \<Rightarrow> Scenario \<Rightarrow> real
     \<Rightarrow> nat \<Rightarrow> LoopState \<Rightarrow> LoopState"
where
  "yearLoop64 pw yrs cost market revIn scn unitVariableCost i st =
    (if real i < yrs
     then yearLoop64 pw yrs cost market revIn scn unitVariableCost (Suc i)
            (loopBody64 pw cost market revIn scn unitVariableCost i st)
     else st)"
  by pat_completeness auto
termination
proof (relation "measure (\<lambda>(pw, yrs, cost, market, revIn, scn, u, i, st). nat \<lceil>yrs\<rceil> - i)")
  show "wf (measure (\<lambda>(pw :: real \<Rightarrow> nat \<Rightarrow> real, yrs :: real, cost :: CostInputs,
                       market :: MarketInputs, revIn :: RevenueInputs, scn :: Scenario,
                       u :: real, i :: nat, st :: LoopState). nat \<lceil>yrs\<rceil> - i))"
    by simp
next
  fix pw :: "real \<Rightarrow> nat \<Rightarrow> real" and yrs :: real and cost :: CostInputs
    and market :: MarketInputs and revIn :: RevenueInputs and scn :: Scenario
    and unitVariableCost :: real and i :: nat and st :: LoopState
  assume "real i < yrs"
  then have "int i < \<lceil>yrs\<rceil>"
    by linarith
  then show "((pw, yrs, cost, market, revIn, scn, unitVariableCost, Suc i,
               loopBody64 pw cost market revIn scn unitVariableCost i st),
              (pw, yrs, cost, market, revIn, scn, unitVariableCost, i, st))
             \<in> measure (\<lambda>(pw, yrs, cost, market, revIn, scn, u, i, st). nat \<lceil>yrs\<rceil> - i)"
    by simp
qed

declare yearLoop64.simps [simp del]

definition buildScenarioResult64 ::
  "(real \<Rightarrow> nat \<Rightarrow> real) \<Rightarrow> GeneralInputs \<Rightarrow> CostInputs \<Rightarrow> MarketInputs \<Rightarrow> RevenueInputs \<Rightarrow> Scenario
     \<Rightarrow> ScenarioResult"
where
  "buildScenarioResult64 pw general cost market revIn scn =
    (let yrs = years general;
         upfrontCapex = dadd (devCapex cost) (launchMarketingCapex cost);
         unitVariableCost = getVariableCostPerUnit64 (productType general) cost;
         st = yearLoop64 pw yrs cost market revIn scn unitVariableCost 0
                \<lparr> st_yearly = [], st_cumulativeCashFlow = - upfrontCapex, st_paybackYear = None \<rparr>;
         totalRevenue_r = foldl (\<lambda>s y. dadd s (revenue y)) 0 (st_yearly st);
         totalNetProfit_r = foldl (\<lambda>s y. dadd s (netProfit y)) 0 (st_yearly st);
         contributionMargin = dsub (basePricePerUnit revIn) unitVariableCost;
         breakEvenUnits_r =
           (if contributionMargin > 0 then Some (ddiv upfrontCapex contributionMargin) else None)
     in \<lparr> scenario = scn,
          yearly = st_yearly st,
          totalRevenue = totalRevenue_r,
          totalNetProfit = totalNetProfit_r,
          paybackYear = st_paybackYear st,
          breakEvenUnits = breakEvenUnits_r \<rparr>)"


text \<open>Auxiliary definitions for this embedding, as for the exact one.\<close>

definition initState64 :: "CostInputs \<Rightarrow> LoopState" where
  "initState64 cost =
     \<lparr> st_yearly = [],
       st_cumulativeCashFlow = - dadd (devCapex cost) (launchMarketingCapex cost),
       st_paybackYear = None \<rparr>"

primrec runYears64 ::
  "(real \<Rightarrow> nat \<Rightarrow> real) \<Rightarrow> CostInputs \<Rightarrow> MarketInputs \<Rightarrow> RevenueInputs \<Rightarrow> Scenario \<Rightarrow> real
     \<Rightarrow> LoopState \<Rightarrow> nat \<Rightarrow> LoopState"
where
  "runYears64 pw c m r s u st0 0 = st0"
| "runYears64 pw c m r s u st0 (Suc n) = loopBody64 pw c m r s u n (runYears64 pw c m r s u st0 n)"

definition basePrice64At :: "(real \<Rightarrow> nat \<Rightarrow> real) \<Rightarrow> RevenueInputs \<Rightarrow> nat \<Rightarrow> real" where
  "basePrice64At pw r i =
     dmul (basePricePerUnit r) (pw (dadd 1 (ddiv (annualPriceGrowthPct r) 100)) i)"

definition baseUnits64At :: "MarketInputs \<Rightarrow> nat \<Rightarrow> real" where
  "baseUnits64At m i =
     dmul (dmul (dmul (nth_or_zero (tamUnitsPerYear m) i) (ddiv (samPct m) 100))
              (ddiv (somPct m) 100))
       (ddiv (nth_or_zero (adoptionPctPerYear m) i) 100)"

definition price64At :: "(real \<Rightarrow> nat \<Rightarrow> real) \<Rightarrow> RevenueInputs \<Rightarrow> Scenario \<Rightarrow> nat \<Rightarrow> real" where
  "price64At pw r s i = dmul (basePrice64At pw r i) (priceMultiplier s)"

definition units64At :: "MarketInputs \<Rightarrow> Scenario \<Rightarrow> nat \<Rightarrow> real" where
  "units64At m s i = dmul (baseUnits64At m i) (adoptionMultiplier s)"

definition revenue64At ::
  "(real \<Rightarrow> nat \<Rightarrow> real) \<Rightarrow> MarketInputs \<Rightarrow> RevenueInputs \<Rightarrow> Scenario \<Rightarrow> nat \<Rightarrow> real" where
  "revenue64At pw m r s i = dmul (price64At pw r s i) (units64At m s i)"

definition netProfit64At ::
  "(real \<Rightarrow> nat \<Rightarrow> real) \<Rightarrow> CostInputs \<Rightarrow> MarketInputs \<Rightarrow> RevenueInputs \<Rightarrow> Scenario \<Rightarrow> real \<Rightarrow> nat
     \<Rightarrow> real" where
  "netProfit64At pw c m r s u i =
     dsub (dsub (revenue64At pw m r s i) (dmul u (units64At m s i))) (annualFixedOpex c)"

definition yearRow64 ::
  "(real \<Rightarrow> nat \<Rightarrow> real) \<Rightarrow> CostInputs \<Rightarrow> MarketInputs \<Rightarrow> RevenueInputs \<Rightarrow> Scenario \<Rightarrow> real \<Rightarrow> nat
     \<Rightarrow> real \<Rightarrow> YearlyResult"
where
  "yearRow64 pw c m r s u i cum =
     \<lparr> year = i + 1,
       pricePerUnit = price64At pw r s i,
       units = units64At m s i,
       revenue = revenue64At pw m r s i,
       variableCost = dmul u (units64At m s i),
       grossProfit = dsub (revenue64At pw m r s i) (dmul u (units64At m s i)),
       grossMarginPct =
         (if revenue64At pw m r s i > 0
          then dmul (ddiv (dsub (revenue64At pw m r s i) (dmul u (units64At m s i)))
                       (revenue64At pw m r s i)) 100
          else 0),
       fixedCost = annualFixedOpex c,
       netProfit = netProfit64At pw c m r s u i,
       netMarginPct =
         (if revenue64At pw m r s i > 0
          then dmul (ddiv (netProfit64At pw c m r s u i) (revenue64At pw m r s i)) 100
          else 0),
       cumulativeCashFlow = dadd cum (netProfit64At pw c m r s u i) \<rparr>"


text \<open>
  Inputs for runs in doubles: an upfront cost of \<open>2 ^ 54\<close> against a net profit of 1 a year,
  and a base price of \<open>1 + 2 powi - 52\<close> (the double that follows 1) under a scenario that
  triples price and adoption.
\<close>

definition big_general :: GeneralInputs where
  "big_general = \<lparr> productName = ''P'', productType = software, currency = ''EUR'', years = 2 \<rparr>"

definition big_cost :: CostInputs where
  "big_cost = \<lparr> devCapex = 18014398509481984, launchMarketingCapex = 0, infraCostPerUser = 0,
      licenseCostPerUser = 0, manufacturingCostPerUnit = 0, shippingCostPerUnit = 0,
      packagingCostPerUnit = 0, supportCostPerUnit = 0, annualFixedOpex = 0 \<rparr>"

definition unit_market :: MarketInputs where
  "unit_market = \<lparr> tamUnitsPerYear = [1, 1], samPct = 100, somPct = 100,
      adoptionPctPerYear = [100, 100] \<rparr>"

definition unit_revenue :: RevenueInputs where
  "unit_revenue = \<lparr> basePricePerUnit = 1, annualPriceGrowthPct = 0 \<rparr>"

definition one_general :: GeneralInputs where
  "one_general = \<lparr> productName = ''P'', productType = software, currency = ''EUR'', years = 1 \<rparr>"

definition zero_cost :: CostInputs where
  "zero_cost = \<lparr> devCapex = 0, launchMarketingCapex = 0, infraCostPerUser = 0,
      licenseCostPerUser = 0, manufacturingCostPerUnit = 0, shippingCostPerUnit = 0,
      packagingCostPerUnit = 0, supportCostPerUnit = 0, annualFixedOpex = 0 \<rparr>"

definition next_revenue :: RevenueInputs where
  "next_revenue =
     \<lparr> basePricePerUnit = 4503599627370497 / 4503599627370496, annualPriceGrowthPct = 0 \<rparr>"

definition triple_scenario :: Scenario where
  "triple_scenario =
     \<lparr> id_scn = ''x3'', name = ''Triple'', adoptionMultiplier = 3, priceMultiplier = 3 \<rparr>"


section \<open>The loop as an iteration of its body\<close>

lemma yearLoop_runYears:
  "yearLoop y c m r s u i (runYears c m r s u st0 i) = runYears c m r s u st0 (max i (nat \<lceil>y\<rceil>))"
proof (induction "nat \<lceil>y\<rceil> - i" arbitrary: i)
  case 0
  then have "\<not> real i < y" by linarith
  moreover from 0 have "max i (nat \<lceil>y\<rceil>) = i" by simp
  ultimately show ?case by (simp add: yearLoop.simps)
next
  case (Suc d)
  then have lt: "i < nat \<lceil>y\<rceil>" by simp
  then have "real i < y" by linarith
  moreover have "d = nat \<lceil>y\<rceil> - Suc i" using Suc.hyps(2) by simp
  ultimately show ?case
    using Suc.hyps(1) [of "Suc i"] lt
    by (subst yearLoop.simps) (simp add: max_def)
qed

lemma yearLoop_from_zero:
  "yearLoop y c m r s u 0 st0 = runYears c m r s u st0 (nat \<lceil>y\<rceil>)"
  using yearLoop_runYears [of y c m r s u 0 st0] by simp

lemma loopBody_yearly:
  "st_yearly (loopBody c m r s u i st) =
     st_yearly st @ [yearRow c m r s u i (st_cumulativeCashFlow st)]"
  by (simp add: loopBody_def yearRow_def netProfitAt_def priceAt_def unitsAt_def Let_def)

lemma loopBody_cum:
  "st_cumulativeCashFlow (loopBody c m r s u i st) =
     st_cumulativeCashFlow st + netProfitAt c m r s u i"
  by (simp add: loopBody_def netProfitAt_def priceAt_def unitsAt_def Let_def)

lemma loopBody_payback:
  "st_paybackYear (loopBody c m r s u i st) =
     (if st_paybackYear st = None \<and> 0 \<le> st_cumulativeCashFlow st + netProfitAt c m r s u i
      then Some (Suc i) else st_paybackYear st)"
  by (simp add: loopBody_def netProfitAt_def priceAt_def unitsAt_def Let_def)

lemma run_length:
  "length (st_yearly (runYears c m r s u st0 n)) = length (st_yearly st0) + n"
  by (induction n) (simp_all add: loopBody_yearly)

lemma run_nth:
  "st_yearly st0 = [] \<Longrightarrow> k < n \<Longrightarrow>
     st_yearly (runYears c m r s u st0 n) ! k =
       yearRow c m r s u k (st_cumulativeCashFlow (runYears c m r s u st0 k))"
proof (induction n)
  case 0
  then show ?case by simp
next
  case (Suc n)
  have len: "length (st_yearly (runYears c m r s u st0 n)) = n"
    using Suc.prems(1) by (simp add: run_length)
  show ?case
  proof (cases "k < n")
    case True
    then show ?thesis
      using Suc.IH Suc.prems(1) len by (simp add: loopBody_yearly nth_append)
  next
    case False
    with Suc.prems(2) have "k = n" by simp
    then show ?thesis
      using len by (simp add: loopBody_yearly nth_append)
  qed
qed

lemma run_total_netProfit:
  "st_yearly st0 = [] \<Longrightarrow>
     foldl (\<lambda>a y. a + netProfit y) 0 (st_yearly (runYears c m r s u st0 n)) =
       st_cumulativeCashFlow (runYears c m r s u st0 n) - st_cumulativeCashFlow st0"
  by (induction n) (simp_all add: loopBody_yearly loopBody_cum yearRow_def)

lemma run_cum_row:
  "cumulativeCashFlow (yearRow c m r s u k (st_cumulativeCashFlow (runYears c m r s u st0 k))) =
     st_cumulativeCashFlow (runYears c m r s u st0 (Suc k))"
  by (simp add: yearRow_def loopBody_cum)

lemma run_cum_mono:
  assumes "a \<le> b" and "b \<le> n" and "\<forall>i<n. 0 \<le> netProfitAt c m r s u i"
  shows "st_cumulativeCashFlow (runYears c m r s u st0 a)
           \<le> st_cumulativeCashFlow (runYears c m r s u st0 b)"
  using assms
proof (induction b rule: dec_induct)
  case base
  show ?case by simp
next
  case (step k)
  then have "0 \<le> netProfitAt c m r s u k" by simp
  moreover have "st_cumulativeCashFlow (runYears c m r s u st0 a)
           \<le> st_cumulativeCashFlow (runYears c m r s u st0 k)"
    using step by simp
  ultimately show ?case by (simp add: loopBody_cum)
qed

subsection \<open>The payback latch\<close>

lemma run_payback_inv:
  "st_paybackYear st0 = None \<Longrightarrow>
   (case st_paybackYear (runYears c m r s u st0 n) of
      None \<Rightarrow> (\<forall>j. 1 \<le> j \<and> j \<le> n \<longrightarrow> st_cumulativeCashFlow (runYears c m r s u st0 j) < 0)
    | Some p \<Rightarrow> 1 \<le> p \<and> p \<le> n \<and> 0 \<le> st_cumulativeCashFlow (runYears c m r s u st0 p)
        \<and> (\<forall>j. 1 \<le> j \<and> j < p \<longrightarrow> st_cumulativeCashFlow (runYears c m r s u st0 j) < 0))"
proof (induction n)
  case 0
  then show ?case by simp
next
  case (Suc n)
  let ?R = "runYears c m r s u st0"
  show ?case
  proof (cases "st_paybackYear (?R n)")
    case None
    with Suc have neg: "\<forall>j. 1 \<le> j \<and> j \<le> n \<longrightarrow> st_cumulativeCashFlow (?R j) < 0"
      by simp
    show ?thesis
    proof (cases "0 \<le> st_cumulativeCashFlow (?R (Suc n))")
      case True
      then have "st_paybackYear (?R (Suc n)) = Some (Suc n)"
        using None by (simp add: loopBody_payback loopBody_cum)
      then show ?thesis using True neg by (simp add: less_Suc_eq_le)
    next
      case False
      then have "st_paybackYear (?R (Suc n)) = None"
        using None by (simp add: loopBody_payback loopBody_cum)
      moreover have "\<forall>j. 1 \<le> j \<and> j \<le> Suc n \<longrightarrow> st_cumulativeCashFlow (?R j) < 0"
        using neg False by (metis le_Suc_eq not_le)
      ultimately show ?thesis by simp
    qed
  next
    case (Some p)
    then have "st_paybackYear (?R (Suc n)) = Some p"
      by (simp add: loopBody_payback)
    then show ?thesis using Suc Some by simp
  qed
qed

lemma run_payback_Some:
  assumes "st_paybackYear st0 = None"
    and "st_paybackYear (runYears c m r s u st0 n) = Some p"
  shows "1 \<le> p \<and> p \<le> n \<and> 0 \<le> st_cumulativeCashFlow (runYears c m r s u st0 p)
    \<and> (\<forall>j. 1 \<le> j \<and> j < p \<longrightarrow> st_cumulativeCashFlow (runYears c m r s u st0 j) < 0)"
proof -
  note run_payback_inv [OF assms(1), where n = n and c = c and m = m and r = r and s = s and u = u]
  with assms(2) show ?thesis by simp
qed

lemma run_payback_latch:
  "n \<le> n' \<Longrightarrow> st_paybackYear (runYears c m r s u st0 n) = Some p \<Longrightarrow>
     st_paybackYear (runYears c m r s u st0 n') = Some p"
  by (induction n' rule: dec_induct) (simp_all add: loopBody_payback)

subsection \<open>The fields of the result\<close>

lemma build_yearly:
  "yearly (buildScenarioResult g c m r s) =
     st_yearly (runYears c m r s (getVariableCostPerUnit (productType g) c) (initState c)
                  (nat \<lceil>years g\<rceil>))"
  by (simp add: buildScenarioResult_def Let_def yearLoop_from_zero initState_def)

lemma build_paybackYear:
  "paybackYear (buildScenarioResult g c m r s) =
     st_paybackYear (runYears c m r s (getVariableCostPerUnit (productType g) c) (initState c)
                       (nat \<lceil>years g\<rceil>))"
  by (simp add: buildScenarioResult_def Let_def yearLoop_from_zero initState_def)

lemma build_totalNetProfit:
  "totalNetProfit (buildScenarioResult g c m r s) =
     foldl (\<lambda>a y. a + netProfit y) 0 (yearly (buildScenarioResult g c m r s))"
  by (simp add: buildScenarioResult_def Let_def)

lemma build_breakEvenUnits:
  "breakEvenUnits (buildScenarioResult g c m r s) =
     (if basePricePerUnit r - getVariableCostPerUnit (productType g) c > 0
      then Some ((devCapex c + launchMarketingCapex c)
                   / (basePricePerUnit r - getVariableCostPerUnit (productType g) c))
      else None)"
  by (simp add: buildScenarioResult_def Let_def)

lemma build_length:
  "length (yearly (buildScenarioResult g c m r s)) = nat \<lceil>years g\<rceil>"
  by (simp add: build_yearly run_length initState_def)

lemma build_row:
  "k < nat \<lceil>years g\<rceil> \<Longrightarrow>
     yearly (buildScenarioResult g c m r s) ! k =
       yearRow c m r s (getVariableCostPerUnit (productType g) c) k
         (st_cumulativeCashFlow
            (runYears c m r s (getVariableCostPerUnit (productType g) c) (initState c) k))"
  by (simp add: build_yearly run_nth initState_def)

lemma build_row_cum:
  "k < nat \<lceil>years g\<rceil> \<Longrightarrow>
     cumulativeCashFlow (yearly (buildScenarioResult g c m r s) ! k) =
       st_cumulativeCashFlow
         (runYears c m r s (getVariableCostPerUnit (productType g) c) (initState c) (Suc k))"
  by (simp only: build_row run_cum_row)

lemma build_row_netProfit:
  "k < nat \<lceil>years g\<rceil> \<Longrightarrow>
     netProfit (yearly (buildScenarioResult g c m r s) ! k) =
       netProfitAt c m r s (getVariableCostPerUnit (productType g) c) k"
  by (simp add: build_row yearRow_def)

lemma runYears_cost_cong:
  "annualFixedOpex c' = annualFixedOpex c \<Longrightarrow>
     runYears c' m r s u st0 n = runYears c m r s u st0 n"
  by (induction n) (simp_all add: loopBody_def)

lemma build_cost_cong:
  assumes "devCapex c' = devCapex c"
    and "launchMarketingCapex c' = launchMarketingCapex c"
    and "annualFixedOpex c' = annualFixedOpex c"
    and "getVariableCostPerUnit (productType g) c' = getVariableCostPerUnit (productType g) c"
  shows "buildScenarioResult g c' m r s = buildScenarioResult g c m r s"
proof -
  have "runYears c' m r s u st0 n = runYears c m r s u st0 n" for u st0 n
    using assms(3) by (rule runYears_cost_cong)
  then show ?thesis
    using assms(1,2,4) by (simp add: buildScenarioResult_def Let_def yearLoop_from_zero)
qed

section \<open>Rounding to the nearest double\<close>

text \<open>
  \<open>round64\<close> commutes with negation, is monotone, and leaves every number \<open>m * 2 powi e\<close>
  with \<open>\<bar>m\<bar> \<le> 2 ^ 53\<close> unchanged; so it is idempotent. \<open>round64_eval\<close> computes it from
  the binade of its argument.
\<close>

lemma rne_of_int [simp]: "rne (of_int n) = n"
  by (simp add: rne_def)

lemma rne_bounds: "of_int (rne q) \<le> q + 1 / 2" "q - 1 / 2 \<le> of_int (rne q)"
  by (auto simp add: rne_def Let_def) linarith+

lemma rne_floor_le: "\<lfloor>q\<rfloor> \<le> rne q" and rne_le_floor_Suc: "rne q \<le> \<lfloor>q\<rfloor> + 1"
  by (auto simp add: rne_def Let_def)

lemma rne_mono:
  assumes "q \<le> q'"
  shows "rne q \<le> rne q'"
proof (cases "\<lfloor>q\<rfloor> = \<lfloor>q'\<rfloor>")
  case True
  then show ?thesis
    using assms by (auto simp add: rne_def Let_def)
next
  case False
  with assms have "\<lfloor>q\<rfloor> < \<lfloor>q'\<rfloor>"
    by (meson floor_mono order.not_eq_order_implies_strict)
  then have "rne q \<le> \<lfloor>q'\<rfloor>"
    using rne_le_floor_Suc [of q] by linarith
  then show ?thesis
    using rne_floor_le [of q'] by linarith
qed

lemma rne_minus: "rne (- q) = - rne q"
proof (cases "q \<in> \<int>")
  case True
  then obtain n where "q = of_int n" by (auto elim: Ints_cases)
  then have "- q = of_int (- n)" by simp
  then show ?thesis
    using \<open>q = of_int n\<close> by (simp only: rne_of_int)
next
  case False
  then have ne: "q \<noteq> of_int \<lfloor>q\<rfloor>"
    by (metis Ints_of_int)
  then have fl: "\<lfloor>- q\<rfloor> = - \<lfloor>q\<rfloor> - 1"
    by (simp add: floor_minus ceiling_altdef)
  have frac: "q - of_int \<lfloor>q\<rfloor> \<noteq> 0"
    using ne by simp
  show ?thesis
    using fl frac by (auto simp add: rne_def Let_def)
qed

lemma binade_iff:
  assumes "x \<noteq> 0"
  shows "binade x = k \<longleftrightarrow> 2 powi k \<le> \<bar>x\<bar> \<and> \<bar>x\<bar> < 2 powi (k + 1)"
proof -
  have "(2::real) powr real_of_int k = 2 powi k"
    and "(2::real) powr (real_of_int k + 1) = 2 powi (k + 1)"
    using powr_real_of_int' [of 2 k] powr_real_of_int' [of 2 "k + 1"] by simp_all
  then show ?thesis
    using assms floor_log_eq_powr_iff [of "\<bar>x\<bar>" 2 k] by (simp add: binade_def)
qed

lemma binade_bounds:
  assumes "x \<noteq> 0"
  shows "2 powi (binade x) \<le> \<bar>x\<bar>" and "\<bar>x\<bar> < 2 powi (binade x + 1)"
  using binade_iff [OF assms, of "binade x"] by simp_all

lemma binade_minus [simp]: "binade (- x) = binade x"
  by (simp add: binade_def)

lemma powi_split: "(2::real) powi (k + 1) = 2 powi (k - 52) * 2 ^ 53"
  and powi_split0: "(2::real) powi k = 2 powi (k - 52) * 2 ^ 52"
proof -
  have "(2::real) powi ((k - 52) + 53) = 2 powi (k - 52) * 2 powi 53"
    by (subst power_int_add) simp_all
  moreover have "(k - 52) + 53 = k + 1" by simp
  ultimately show "(2::real) powi (k + 1) = 2 powi (k - 52) * 2 ^ 53"
    by (simp only: power_int_numeral)
  have "(2::real) powi ((k - 52) + 52) = 2 powi (k - 52) * 2 powi 52"
    by (subst power_int_add) simp_all
  moreover have "(k - 52) + 52 = k" by simp
  ultimately show "(2::real) powi k = 2 powi (k - 52) * 2 ^ 52"
    by (simp only: power_int_numeral)
qed

lemma scaled_range:
  fixes x :: real
  assumes "2 powi k \<le> x" and "x < 2 powi (k + 1)"
  shows "2 ^ 52 \<le> x / 2 powi (k - 52)" and "x / 2 powi (k - 52) < 2 ^ 53"
proof -
  have u: "(0::real) < 2 powi (k - 52)" by simp
  have "2 ^ 52 * 2 powi (k - 52) \<le> x"
    using assms(1) by (simp add: powi_split0 [of k] mult.commute)
  then show "2 ^ 52 \<le> x / 2 powi (k - 52)"
    using u by (simp add: pos_le_divide_eq)
  have "x < 2 ^ 53 * 2 powi (k - 52)"
    using assms(2) by (simp add: powi_split [of k] mult.commute)
  then show "x / 2 powi (k - 52) < 2 ^ 53"
    using u by (simp add: pos_divide_less_eq)
qed

lemma rne_range:
  assumes "2 ^ 52 \<le> q" and "q < 2 ^ 53"
  shows "2 ^ 52 \<le> rne q" and "rne q \<le> 2 ^ 53"
proof -
  have "rne (of_int (2 ^ 52)) \<le> rne q"
    using assms(1) by (intro rne_mono) simp
  then show "2 ^ 52 \<le> rne q" by (simp only: rne_of_int)
  have "rne q \<le> rne (of_int (2 ^ 53))"
    using assms(2) by (intro rne_mono) simp
  then show "rne q \<le> 2 ^ 53" by (simp only: rne_of_int)
qed

lemma round64_minus: "round64 (- x) = - round64 x"
  by (simp add: round64_def rne_minus)

lemma round64_pos:
  assumes "0 < x"
  shows "round64 x = of_int (rne (x / 2 powi (binade x - 52))) * 2 powi (binade x - 52)"
    and "2 powi (binade x) \<le> round64 x" and "round64 x \<le> 2 powi (binade x + 1)"
proof -
  let ?k = "binade x"
  let ?u = "(2::real) powi (?k - 52)"
  let ?m = "rne (x / ?u)"
  have x0: "x \<noteq> 0" using assms by simp
  show eq: "round64 x = of_int ?m * ?u"
    using x0 by (simp add: round64_def)
  have "2 powi ?k \<le> x" and "x < 2 powi (?k + 1)"
    using binade_bounds [OF x0] assms by simp_all
  then have "2 ^ 52 \<le> x / ?u" and "x / ?u < 2 ^ 53"
    by (rule scaled_range)+
  then have "2 ^ 52 \<le> ?m" and "?m \<le> 2 ^ 53"
    by (rule rne_range)+
  then have "(2::real) ^ 52 \<le> of_int ?m" and "of_int ?m \<le> (2::real) ^ 53"
    by (metis of_int_le_iff of_int_numeral of_int_power)+
  then show "2 powi ?k \<le> round64 x" and "round64 x \<le> 2 powi (?k + 1)"
    unfolding eq powi_split [of ?k] powi_split0 [of ?k]
    by (simp_all add: mult.commute)
qed

lemma binade_scale:
  assumes "x \<noteq> 0"
  shows "binade (x * 2 powi e) = binade x + e"
proof -
  have "2 powi (binade x) * 2 powi e \<le> \<bar>x\<bar> * 2 powi e"
    and "\<bar>x\<bar> * 2 powi e < 2 powi (binade x + 1) * 2 powi e"
    using binade_bounds [OF assms] by simp_all
  moreover have "(2::real) powi (binade x) * 2 powi e = 2 powi (binade x + e)"
    and "(2::real) powi (binade x + 1) * 2 powi e = 2 powi (binade x + e + 1)"
    by (simp_all add: power_int_add)
  moreover have "\<bar>x * 2 powi e\<bar> = \<bar>x\<bar> * 2 powi e"
    by (simp add: abs_mult)
  ultimately have "2 powi (binade x + e) \<le> \<bar>x * 2 powi e\<bar>
      \<and> \<bar>x * 2 powi e\<bar> < 2 powi (binade x + e + 1)"
    by simp
  moreover have "x * 2 powi e \<noteq> 0"
    using assms by simp
  ultimately show ?thesis
    using binade_iff [of "x * 2 powi e" "binade x + e"] by simp
qed

lemma round64_fixed_pos:
  assumes "0 < m" and "m \<le> 2 ^ 53"
  shows "round64 (of_int m * 2 powi e) = of_int m * 2 powi e"
proof -
  let ?x = "real_of_int m * 2 powi e"
  let ?j = "binade (of_int m)"
  have m0: "real_of_int m \<noteq> 0" using assms(1) by simp
  have k: "binade ?x = ?j + e"
    using m0 by (rule binade_scale)
  have lo: "2 powi ?j \<le> real_of_int m" and hi: "real_of_int m < 2 powi (?j + 1)"
    using binade_bounds [OF m0] assms(1) by simp_all
  have "(2::real) powi 0 \<le> of_int m"
    using assms(1) by simp
  then have "(2::real) powi 0 < 2 powi (?j + 1)"
    using hi by linarith
  have j0: "0 \<le> ?j"
  proof (rule ccontr)
    assume "\<not> 0 \<le> ?j"
    then have "?j + 1 \<le> 0" by simp
    then have "(2::real) powi (?j + 1) \<le> 2 powi 0"
      by (intro power_int_increasing) simp_all
    with \<open>(2::real) powi 0 < 2 powi (?j + 1)\<close> show False by linarith
  qed
  have "real_of_int m \<le> 2 powi 53"
    using assms(2) by (metis of_int_le_iff of_int_numeral of_int_power power_int_numeral)
  then have "(2::real) powi ?j \<le> 2 powi 53"
    using lo by linarith
  then have j53: "?j \<le> 53"
    by (rule power_int_le_imp_le_exp [rotated]) simp_all
  have x0: "?x \<noteq> 0" using m0 by simp
  have q: "?x / 2 powi (?j + e - 52) = of_int m * 2 powi (52 - ?j)"
    by (simp add: power_int_diff power_int_add field_simps)
  have "\<exists>n. real_of_int m * 2 powi (52 - ?j) = of_int n"
  proof (cases "?j \<le> 52")
    case True
    then have "(2::real) powi (52 - ?j) = 2 ^ nat (52 - ?j)"
      by (simp add: power_int_def)
    then have "real_of_int m * 2 powi (52 - ?j) = of_int (m * 2 ^ nat (52 - ?j))"
      by simp
    then show ?thesis ..
  next
    case False
    with j53 have j: "?j = 53" by simp
    with lo have "2 ^ 53 \<le> real_of_int m" by simp
    then have "2 ^ 53 \<le> m"
      by (metis of_int_le_iff of_int_numeral of_int_power)
    with assms(2) have "m = 2 ^ 53" by simp
    then have "real_of_int m * 2 powi (52 - ?j) = of_int (2 ^ 52)"
      using j by simp
    then show ?thesis ..
  qed
  then obtain n where n: "real_of_int m * 2 powi (52 - ?j) = of_int n" ..
  have "round64 ?x = of_int (rne (?x / 2 powi (?j + e - 52))) * 2 powi (?j + e - 52)"
    using x0 by (simp add: round64_def k)
  also have "\<dots> = of_int n * 2 powi (?j + e - 52)"
    by (simp only: q n rne_of_int)
  also have "\<dots> = (?x / 2 powi (?j + e - 52)) * 2 powi (?j + e - 52)"
    by (simp only: q n)
  also have "\<dots> = ?x"
    by simp
  finally show ?thesis .
qed

lemma round64_fixed:
  assumes "\<bar>m\<bar> \<le> 2 ^ 53"
  shows "round64 (of_int m * 2 powi e) = of_int m * 2 powi e"
proof -
  consider "m = 0" | "0 < m" | "m < 0" by linarith
  then show ?thesis
  proof cases
    case 1
    then show ?thesis by (simp add: round64_def)
  next
    case 2
    with assms show ?thesis by (intro round64_fixed_pos) simp_all
  next
    case 3
    with assms have "round64 (of_int (- m) * 2 powi e) = of_int (- m) * 2 powi e"
      by (intro round64_fixed_pos) simp_all
    then show ?thesis
      using round64_minus [of "of_int m * 2 powi e"] by simp
  qed
qed

lemma round64_0 [simp]: "round64 0 = 0"
  by (simp add: round64_def)

lemma round64_repr: "\<exists>m e. \<bar>m\<bar> \<le> 2 ^ 53 \<and> round64 x = of_int m * 2 powi e"
proof -
  have pos: "\<exists>m e. \<bar>m\<bar> \<le> 2 ^ 53 \<and> round64 x = of_int m * 2 powi e" if "0 < x" for x
  proof -
    let ?k = "binade x"
    let ?u = "(2::real) powi (?k - 52)"
    let ?m = "rne (x / ?u)"
    have x0: "x \<noteq> 0" using that by simp
    have "2 powi ?k \<le> x" and "x < 2 powi (?k + 1)"
      using binade_bounds [OF x0] that by simp_all
    then have "2 ^ 52 \<le> x / ?u" and "x / ?u < 2 ^ 53"
      by (rule scaled_range)+
    then have "2 ^ 52 \<le> ?m" and "?m \<le> 2 ^ 53"
      by (rule rne_range)+
    then have "\<bar>?m\<bar> \<le> 2 ^ 53" by simp
    moreover have "round64 x = of_int ?m * ?u"
      using that by (rule round64_pos(1))
    ultimately show ?thesis by blast
  qed
  consider "x = 0" | "0 < x" | "x < 0" by linarith
  then show ?thesis
  proof cases
    case 1
    have "\<bar>0::int\<bar> \<le> 2 ^ 53 \<and> round64 0 = of_int 0 * 2 powi 0" by simp
    with 1 show ?thesis by blast
  next
    case 2
    then show ?thesis by (rule pos)
  next
    case 3
    then have "0 < - x" by simp
    from pos [OF this] obtain m e where "\<bar>m\<bar> \<le> 2 ^ 53"
      and "round64 (- x) = of_int m * 2 powi e" by blast
    then have "\<bar>- m\<bar> \<le> 2 ^ 53 \<and> round64 x = of_int (- m) * 2 powi e"
      by (simp add: round64_minus)
    then show ?thesis by blast
  qed
qed

lemma round64_idem [simp]: "round64 (round64 x) = round64 x"
proof -
  obtain m e where "\<bar>m\<bar> \<le> 2 ^ 53" and eq: "round64 x = of_int m * 2 powi e"
    using round64_repr by blast
  then show ?thesis
    by (simp only: eq round64_fixed)
qed

lemma round64_pos_iff: "0 < x \<Longrightarrow> 0 < round64 x"
  using round64_pos(2) [of x] zero_less_power_int [of "2::real" "binade x"] by linarith

lemma round64_mono_pos:
  assumes "0 < x" and "x \<le> y"
  shows "round64 x \<le> round64 y"
proof -
  let ?kx = "binade x" and ?ky = "binade y"
  have y: "0 < y" using assms by linarith
  have x0: "x \<noteq> 0" and y0: "y \<noteq> 0" using assms by simp_all
  have "2 powi ?kx \<le> x" and "y < 2 powi (?ky + 1)"
    using binade_bounds [OF x0] binade_bounds [OF y0] assms(1) y by simp_all
  then have lt: "(2::real) powi ?kx < 2 powi (?ky + 1)"
    using assms(2) by linarith
  have le: "?kx \<le> ?ky"
  proof (rule ccontr)
    assume "\<not> ?kx \<le> ?ky"
    then have "?ky + 1 \<le> ?kx" by simp
    then have "(2::real) powi (?ky + 1) \<le> 2 powi ?kx"
      by (intro power_int_increasing) simp_all
    with lt show False by linarith
  qed
  show ?thesis
  proof (cases "?kx = ?ky")
    case True
    let ?u = "(2::real) powi (?ky - 52)"
    have "x / ?u \<le> y / ?u"
      using assms(2) by (simp add: divide_right_mono)
    then have "rne (x / ?u) \<le> rne (y / ?u)"
      by (rule rne_mono)
    then have "real_of_int (rne (x / ?u)) * ?u \<le> real_of_int (rne (y / ?u)) * ?u"
      by (simp add: mult_right_mono)
    then show ?thesis
      using round64_pos(1) [OF assms(1)] round64_pos(1) [OF y] True by simp
  next
    case False
    with le have "?kx + 1 \<le> ?ky" by simp
    then have "(2::real) powi (?kx + 1) \<le> 2 powi ?ky"
      by (intro power_int_increasing) simp_all
    then show ?thesis
      using round64_pos(3) [OF assms(1)] round64_pos(2) [OF y] by linarith
  qed
qed

lemma round64_mono:
  assumes "x \<le> y"
  shows "round64 x \<le> round64 y"
proof -
  consider "0 < x" | "x \<le> 0" "0 \<le> y" | "y < 0" using assms by linarith
  then show ?thesis
  proof cases
    case 1
    then show ?thesis using assms by (rule round64_mono_pos)
  next
    case 2
    have "round64 x \<le> 0"
    proof (cases "x = 0")
      case True then show ?thesis by simp
    next
      case False
      with 2 have "0 < - x" by simp
      then have "0 < round64 (- x)" by (rule round64_pos_iff)
      then show ?thesis by (simp add: round64_minus)
    qed
    moreover have "0 \<le> round64 y"
    proof (cases "y = 0")
      case True then show ?thesis by simp
    next
      case False
      with 2 have "0 < y" by simp
      then have "0 < round64 y" by (rule round64_pos_iff)
      then show ?thesis by simp
    qed
    ultimately show ?thesis by linarith
  next
    case 3
    then have "0 < - y" and "- y \<le> - x" using assms by simp_all
    then have "round64 (- y) \<le> round64 (- x)" by (rule round64_mono_pos)
    then show ?thesis by (simp add: round64_minus)
  qed
qed

lemma round64_eval:
  assumes "2 powi k \<le> \<bar>x\<bar>" and "\<bar>x\<bar> < 2 powi (k + 1)"
  shows "round64 x = of_int (rne (x / 2 powi (k - 52))) * 2 powi (k - 52)"
proof -
  have "(0::real) < 2 powi k" by simp
  with assms(1) have x0: "x \<noteq> 0" by linarith
  then have "binade x = k"
    using assms by (simp add: binade_iff)
  then show ?thesis
    using x0 by (simp add: round64_def)
qed

lemma round64_int: "\<bar>m\<bar> \<le> 2 ^ 53 \<Longrightarrow> round64 (of_int m) = of_int m"
  using round64_fixed [of m 0] by simp

lemma round64_numeral:
  "(numeral w :: int) \<le> 2 ^ 53 \<Longrightarrow> round64 (numeral w) = numeral w"
  "(numeral w :: int) \<le> 2 ^ 53 \<Longrightarrow> round64 (- numeral w) = - numeral w"
  "round64 1 = 1"
  using round64_int [of "numeral w"] round64_int [of "- numeral w"] round64_int [of 1]
  by simp_all


text \<open>Two familiar doubles: \<^verbatim>\<open>0.1\<close>, and \<^verbatim>\<open>0.1 + 0.2 = 0.30000000000000004\<close>.\<close>

lemma round64_tenth: "round64 (1 / 10) = 3602879701896397 / 36028797018963968"
  by (subst round64_eval [where k = "- 4"]) (simp_all add: rne_def)

lemma round64_tenth_plus_fifth:
  "round64 (3602879701896397 / 36028797018963968 + 3602879701896397 / 18014398509481984) =
     1351079888211149 / 4503599627370496"
  by (subst round64_eval [where k = "- 2"]) (simp_all add: rne_def)


section \<open>The loop in doubles as an iteration of its body\<close>

lemma yearLoop64_runYears64:
  "yearLoop64 pw y c m r s u i (runYears64 pw c m r s u st0 i) =
     runYears64 pw c m r s u st0 (max i (nat \<lceil>y\<rceil>))"
proof (induction "nat \<lceil>y\<rceil> - i" arbitrary: i)
  case 0
  then have "\<not> real i < y" by linarith
  moreover from 0 have "max i (nat \<lceil>y\<rceil>) = i" by simp
  ultimately show ?case by (simp add: yearLoop64.simps)
next
  case (Suc d)
  then have lt: "i < nat \<lceil>y\<rceil>" by simp
  then have "real i < y" by linarith
  moreover have "d = nat \<lceil>y\<rceil> - Suc i" using Suc.hyps(2) by simp
  ultimately show ?case
    using Suc.hyps(1) [of "Suc i"] lt
    by (subst yearLoop64.simps) (simp add: max_def)
qed

lemma yearLoop64_from_zero:
  "yearLoop64 pw y c m r s u 0 st0 = runYears64 pw c m r s u st0 (nat \<lceil>y\<rceil>)"
  using yearLoop64_runYears64 [of pw y c m r s u 0 st0] by simp

lemma loopBody64_cum:
  "st_cumulativeCashFlow (loopBody64 pw c m r s u i st) =
     dadd (st_cumulativeCashFlow st) (netProfit64At pw c m r s u i)"
  by (simp add: loopBody64_def netProfit64At_def revenue64At_def price64At_def units64At_def
      basePrice64At_def baseUnits64At_def Let_def)

lemma loopBody64_yearly:
  "st_yearly (loopBody64 pw c m r s u i st) =
     st_yearly st @ [yearRow64 pw c m r s u i (st_cumulativeCashFlow st)]"
  by (simp add: loopBody64_def yearRow64_def netProfit64At_def revenue64At_def price64At_def
      units64At_def basePrice64At_def baseUnits64At_def Let_def)

lemma run64_length:
  "length (st_yearly (runYears64 pw c m r s u st0 n)) = length (st_yearly st0) + n"
  by (induction n) (simp_all add: loopBody64_yearly)

lemma run64_nth:
  "st_yearly st0 = [] \<Longrightarrow> k < n \<Longrightarrow>
     st_yearly (runYears64 pw c m r s u st0 n) ! k =
       yearRow64 pw c m r s u k (st_cumulativeCashFlow (runYears64 pw c m r s u st0 k))"
proof (induction n)
  case 0
  then show ?case by simp
next
  case (Suc n)
  have len: "length (st_yearly (runYears64 pw c m r s u st0 n)) = n"
    using Suc.prems(1) by (simp add: run64_length)
  show ?case
  proof (cases "k < n")
    case True
    then show ?thesis
      using Suc.IH Suc.prems(1) len by (simp add: loopBody64_yearly nth_append)
  next
    case False
    with Suc.prems(2) have "k = n" by simp
    then show ?thesis
      using len by (simp add: loopBody64_yearly nth_append)
  qed
qed

lemma run64_cum_fold:
  "st_yearly st0 = [] \<Longrightarrow>
     st_cumulativeCashFlow (runYears64 pw c m r s u st0 n) =
       foldl (\<lambda>a y. dadd a (netProfit y)) (st_cumulativeCashFlow st0)
         (st_yearly (runYears64 pw c m r s u st0 n))"
  by (induction n) (simp_all add: loopBody64_yearly loopBody64_cum yearRow64_def)

lemma run64_cum_fixed:
  assumes "round64 (st_cumulativeCashFlow st0) = st_cumulativeCashFlow st0"
  shows "round64 (st_cumulativeCashFlow (runYears64 pw c m r s u st0 n)) =
     st_cumulativeCashFlow (runYears64 pw c m r s u st0 n)"
  using assms by (cases n) (simp_all add: loopBody64_cum dadd_def)

lemma run64_cum_step:
  assumes "round64 (st_cumulativeCashFlow st0) = st_cumulativeCashFlow st0"
    and "0 \<le> netProfit64At pw c m r s u n"
  shows "st_cumulativeCashFlow (runYears64 pw c m r s u st0 n)
           \<le> st_cumulativeCashFlow (runYears64 pw c m r s u st0 (Suc n))"
proof -
  let ?a = "st_cumulativeCashFlow (runYears64 pw c m r s u st0 n)"
  have "round64 ?a \<le> round64 (?a + netProfit64At pw c m r s u n)"
    using assms(2) by (intro round64_mono) simp
  then show ?thesis
    using run64_cum_fixed [OF assms(1), of pw c m r s u n]
    by (simp add: loopBody64_cum dadd_def)
qed

lemma run64_cum_mono:
  assumes "round64 (st_cumulativeCashFlow st0) = st_cumulativeCashFlow st0"
    and "a \<le> b" and "b \<le> n" and "\<forall>i<n. 0 \<le> netProfit64At pw c m r s u i"
  shows "st_cumulativeCashFlow (runYears64 pw c m r s u st0 a)
           \<le> st_cumulativeCashFlow (runYears64 pw c m r s u st0 b)"
  using assms(2,3)
proof (induction b rule: dec_induct)
  case base
  show ?case by simp
next
  case (step k)
  then have "0 \<le> netProfit64At pw c m r s u k"
    using assms(4) by simp
  then have "st_cumulativeCashFlow (runYears64 pw c m r s u st0 k)
           \<le> st_cumulativeCashFlow (runYears64 pw c m r s u st0 (Suc k))"
    by (rule run64_cum_step [OF assms(1)])
  moreover have "st_cumulativeCashFlow (runYears64 pw c m r s u st0 a)
           \<le> st_cumulativeCashFlow (runYears64 pw c m r s u st0 k)"
    using step by simp
  ultimately show ?case by linarith
qed

lemma initState64_fixed:
  "round64 (st_cumulativeCashFlow (initState64 c)) = st_cumulativeCashFlow (initState64 c)"
  by (simp add: initState64_def dadd_def round64_minus)

lemma build64_yearly:
  "yearly (buildScenarioResult64 pw g c m r s) =
     st_yearly (runYears64 pw c m r s (getVariableCostPerUnit64 (productType g) c) (initState64 c)
                  (nat \<lceil>years g\<rceil>))"
  by (simp add: buildScenarioResult64_def Let_def yearLoop64_from_zero initState64_def)

lemma build64_totalNetProfit:
  "totalNetProfit (buildScenarioResult64 pw g c m r s) =
     foldl (\<lambda>a y. dadd a (netProfit y)) 0 (yearly (buildScenarioResult64 pw g c m r s))"
  by (simp add: buildScenarioResult64_def Let_def)

lemma build64_length:
  "length (yearly (buildScenarioResult64 pw g c m r s)) = nat \<lceil>years g\<rceil>"
  by (simp add: build64_yearly run64_length initState64_def)

lemma build64_row:
  "k < nat \<lceil>years g\<rceil> \<Longrightarrow>
     yearly (buildScenarioResult64 pw g c m r s) ! k =
       yearRow64 pw c m r s (getVariableCostPerUnit64 (productType g) c) k
         (st_cumulativeCashFlow
            (runYears64 pw c m r s (getVariableCostPerUnit64 (productType g) c) (initState64 c) k))"
  by (simp add: build64_yearly run64_nth initState64_def)

lemma build64_row_cum:
  "k < nat \<lceil>years g\<rceil> \<Longrightarrow>
     cumulativeCashFlow (yearly (buildScenarioResult64 pw g c m r s) ! k) =
       st_cumulativeCashFlow
         (runYears64 pw c m r s (getVariableCostPerUnit64 (productType g) c) (initState64 c)
            (Suc k))"
  by (simp add: build64_row yearRow64_def loopBody64_cum)


section \<open>The example runs\<close>

text \<open>Each run is computed by unfolding the loop.\<close>

lemma ex_scenario_multipliers:
  "adoptionMultiplier ex_scenario = 1" "priceMultiplier ex_scenario = 1"
  by (simp_all add: ex_scenario_def)

lemma up_scenario_multipliers:
  "adoptionMultiplier up_scenario = 3 / 2" "priceMultiplier up_scenario = 2"
  by (simp_all add: up_scenario_def)

lemmas eval_defs = buildScenarioResult_def Let_def yearLoop.simps loopBody_def nth_or_zero_def
  ex_scenario_multipliers up_scenario_multipliers

lemma ex_result:
  "buildScenarioResult ex_general ex_cost ex_market ex_revenue ex_scenario =
    \<lparr> scenario = ex_scenario,
      yearly =
        [\<lparr> year = 1, pricePerUnit = 10, units = 500, revenue = 5000, variableCost = 500,
           grossProfit = 4500, grossMarginPct = 90, fixedCost = 0, netProfit = 4500,
           netMarginPct = 90, cumulativeCashFlow = 3500 \<rparr>,
         \<lparr> year = 2, pricePerUnit = 10, units = 500, revenue = 5000, variableCost = 500,
           grossProfit = 4500, grossMarginPct = 90, fixedCost = 0, netProfit = 4500,
           netMarginPct = 90, cumulativeCashFlow = 8000 \<rparr>],
      totalRevenue = 10000, totalNetProfit = 9000, paybackYear = Some 1,
      breakEvenUnits = Some (1000 / 9) \<rparr>"
  by (simp add: eval_defs ex_general_def ex_cost_def ex_market_def ex_revenue_def)

lemma hw_result:
  "buildScenarioResult hw_general ex_cost ex_market ex_revenue ex_scenario =
    \<lparr> scenario = ex_scenario,
      yearly =
        [\<lparr> year = 1, pricePerUnit = 10, units = 500, revenue = 5000, variableCost = 24000,
           grossProfit = - 19000, grossMarginPct = - 380, fixedCost = 0, netProfit = - 19000,
           netMarginPct = - 380, cumulativeCashFlow = - 20000 \<rparr>,
         \<lparr> year = 2, pricePerUnit = 10, units = 500, revenue = 5000, variableCost = 24000,
           grossProfit = - 19000, grossMarginPct = - 380, fixedCost = 0, netProfit = - 19000,
           netMarginPct = - 380, cumulativeCashFlow = - 39000 \<rparr>],
      totalRevenue = 10000, totalNetProfit = - 38000, paybackYear = None,
      breakEvenUnits = None \<rparr>"
  by (simp add: eval_defs hw_general_def ex_cost_def ex_market_def ex_revenue_def)

lemma up_result:
  "buildScenarioResult ex_general ex_cost ex_market ex_revenue up_scenario =
    \<lparr> scenario = up_scenario,
      yearly =
        [\<lparr> year = 1, pricePerUnit = 20, units = 750, revenue = 15000, variableCost = 750,
           grossProfit = 14250, grossMarginPct = 95, fixedCost = 0, netProfit = 14250,
           netMarginPct = 95, cumulativeCashFlow = 13250 \<rparr>,
         \<lparr> year = 2, pricePerUnit = 20, units = 750, revenue = 15000, variableCost = 750,
           grossProfit = 14250, grossMarginPct = 95, fixedCost = 0, netProfit = 14250,
           netMarginPct = 95, cumulativeCashFlow = 27500 \<rparr>],
      totalRevenue = 30000, totalNetProfit = 28500, paybackYear = Some 1,
      breakEvenUnits = Some (1000 / 9) \<rparr>"
  by (simp add: eval_defs ex_general_def ex_cost_def ex_market_def ex_revenue_def)

lemma dip_result:
  "buildScenarioResult dip_general dip_cost dip_market ex_revenue ex_scenario =
    \<lparr> scenario = ex_scenario,
      yearly =
        [\<lparr> year = 1, pricePerUnit = 10, units = 100, revenue = 1000, variableCost = 100,
           grossProfit = 900, grossMarginPct = 90, fixedCost = 500, netProfit = 400,
           netMarginPct = 40, cumulativeCashFlow = - 600 \<rparr>,
         \<lparr> year = 2, pricePerUnit = 10, units = 200, revenue = 2000, variableCost = 200,
           grossProfit = 1800, grossMarginPct = 90, fixedCost = 500, netProfit = 1300,
           netMarginPct = 65, cumulativeCashFlow = 700 \<rparr>,
         \<lparr> year = 3, pricePerUnit = 10, units = 0, revenue = 0, variableCost = 0,
           grossProfit = 0, grossMarginPct = 0, fixedCost = 500, netProfit = - 500,
           netMarginPct = 0, cumulativeCashFlow = 200 \<rparr>,
         \<lparr> year = 4, pricePerUnit = 10, units = 0, revenue = 0, variableCost = 0,
           grossProfit = 0, grossMarginPct = 0, fixedCost = 500, netProfit = - 500,
           netMarginPct = 0, cumulativeCashFlow = - 300 \<rparr>,
         \<lparr> year = 5, pricePerUnit = 10, units = 200, revenue = 2000, variableCost = 200,
           grossProfit = 1800, grossMarginPct = 90, fixedCost = 500, netProfit = 1300,
           netMarginPct = 65, cumulativeCashFlow = 1000 \<rparr>],
      totalRevenue = 5000, totalNetProfit = 2000, paybackYear = Some 2,
      breakEvenUnits = Some (1000 / 9) \<rparr>"
  by (simp add: eval_defs dip_general_def dip_cost_def dip_market_def ex_revenue_def)

lemma short_result:
  "buildScenarioResult short_general dip_cost short_market ex_revenue ex_scenario =
    \<lparr> scenario = ex_scenario,
      yearly =
        [\<lparr> year = 1, pricePerUnit = 10, units = 500, revenue = 5000, variableCost = 500,
           grossProfit = 4500, grossMarginPct = 90, fixedCost = 500, netProfit = 4000,
           netMarginPct = 80, cumulativeCashFlow = 3000 \<rparr>,
         \<lparr> year = 2, pricePerUnit = 10, units = 0, revenue = 0, variableCost = 0,
           grossProfit = 0, grossMarginPct = 0, fixedCost = 500, netProfit = - 500,
           netMarginPct = 0, cumulativeCashFlow = 2500 \<rparr>,
         \<lparr> year = 3, pricePerUnit = 10, units = 0, revenue = 0, variableCost = 0,
           grossProfit = 0, grossMarginPct = 0, fixedCost = 500, netProfit = - 500,
           netMarginPct = 0, cumulativeCashFlow = 2000 \<rparr>],
      totalRevenue = 5000, totalNetProfit = 3000, paybackYear = Some 1,
      breakEvenUnits = Some (1000 / 9) \<rparr>"
  by (simp add: eval_defs short_general_def dip_cost_def short_market_def ex_revenue_def)

lemma frac_result:
  "buildScenarioResult frac_general ex_cost frac_market ex_revenue ex_scenario =
    \<lparr> scenario = ex_scenario,
      yearly =
        [\<lparr> year = 1, pricePerUnit = 10, units = 0, revenue = 0, variableCost = 0,
           grossProfit = 0, grossMarginPct = 0, fixedCost = 0, netProfit = 0,
           netMarginPct = 0, cumulativeCashFlow = - 1000 \<rparr>,
         \<lparr> year = 2, pricePerUnit = 10, units = 0, revenue = 0, variableCost = 0,
           grossProfit = 0, grossMarginPct = 0, fixedCost = 0, netProfit = 0,
           netMarginPct = 0, cumulativeCashFlow = - 1000 \<rparr>,
         \<lparr> year = 3, pricePerUnit = 10, units = 500, revenue = 5000, variableCost = 500,
           grossProfit = 4500, grossMarginPct = 90, fixedCost = 0, netProfit = 4500,
           netMarginPct = 90, cumulativeCashFlow = 3500 \<rparr>],
      totalRevenue = 5000, totalNetProfit = 4500, paybackYear = Some 3,
      breakEvenUnits = Some (1000 / 9) \<rparr>"
  by (simp add: eval_defs frac_general_def ex_cost_def frac_market_def ex_revenue_def)

lemma zero_result:
  "buildScenarioResult zero_general free_cost ex_market ex_revenue ex_scenario =
    \<lparr> scenario = ex_scenario, yearly = [], totalRevenue = 0, totalNetProfit = 0,
      paybackYear = None, breakEvenUnits = Some 0 \<rparr>"
  by (simp add: eval_defs zero_general_def free_cost_def ex_market_def ex_revenue_def)

subsection \<open>Runs in doubles\<close>

text \<open>The roundings that occur in the two runs, and the runs.\<close>

lemma round64_next_up:
  "round64 (4503599627370497 / 4503599627370496) = 4503599627370497 / 4503599627370496"
  using round64_fixed [of 4503599627370497 "- 52"] by simp

lemma round64_next_up_3:
  "round64 (13510798882111491 / 4503599627370496) = 3377699720527873 / 1125899906842624"
  by (subst round64_eval [where k = 1]) (simp_all add: rne_def)

lemma round64_price_units:
  "round64 (10133099161583619 / 1125899906842624) = 2533274790395905 / 281474976710656"
  by (subst round64_eval [where k = 3]) (simp_all add: rne_def)

lemma round64_9_next_up:
  "round64 (40532396646334473 / 4503599627370496) = 5066549580791809 / 562949953421312"
  by (subst round64_eval [where k = 3]) (simp_all add: rne_def)

lemma round64_big_minus_1:
  "round64 (- 18014398509481983) = - 18014398509481984"
  by (subst round64_eval [where k = 53]) (simp_all add: rne_def)

lemma round64_big: "round64 18014398509481984 = 18014398509481984"
  using round64_fixed [of 1 54] by simp

lemma round64_big_minus_2: "round64 (- 18014398509481982) = - 18014398509481982"
  using round64_fixed [of "- 9007199254740991" 1] by simp

lemmas eval64_defs = buildScenarioResult64_def Let_def yearLoop64.simps loopBody64_def
  nth_or_zero_def dadd_def dsub_def dmul_def ddiv_def pow64_def round64_numeral
  ex_scenario_multipliers

lemma big_result64:
  "(buildScenarioResult64 pow64 big_general big_cost unit_market unit_revenue ex_scenario) =
    \<lparr> scenario = ex_scenario,
      yearly =
        [\<lparr> year = 1, pricePerUnit = 1, units = 1, revenue = 1, variableCost = 0,
           grossProfit = 1, grossMarginPct = 100, fixedCost = 0, netProfit = 1,
           netMarginPct = 100, cumulativeCashFlow = - 18014398509481984 \<rparr>,
         \<lparr> year = 2, pricePerUnit = 1, units = 1, revenue = 1, variableCost = 0,
           grossProfit = 1, grossMarginPct = 100, fixedCost = 0, netProfit = 1,
           netMarginPct = 100, cumulativeCashFlow = - 18014398509481984 \<rparr>],
      totalRevenue = 2, totalNetProfit = 2, paybackYear = None,
      breakEvenUnits = Some 18014398509481984 \<rparr>"
  by (simp add: eval64_defs big_general_def big_cost_def unit_market_def unit_revenue_def
      round64_big round64_big_minus_1)

lemma triple_scenario_multipliers:
  "adoptionMultiplier triple_scenario = 3" "priceMultiplier triple_scenario = 3"
  by (simp_all add: triple_scenario_def)

lemmas row64_defs = yearRow64_def revenue64At_def price64At_def units64At_def
  basePrice64At_def baseUnits64At_def nth_or_zero_def dadd_def dsub_def dmul_def ddiv_def
  pow64_def round64_numeral

lemma triple_row64:
  "pricePerUnit (yearly (buildScenarioResult64 pow64 one_general zero_cost unit_market next_revenue triple_scenario) ! 0) = 3377699720527873 / 1125899906842624"
  "units (yearly (buildScenarioResult64 pow64 one_general zero_cost unit_market next_revenue triple_scenario) ! 0) = 3"
  "revenue (yearly (buildScenarioResult64 pow64 one_general zero_cost unit_market next_revenue triple_scenario) ! 0) = 2533274790395905 / 281474976710656"
proof -
  have k: "0 < nat \<lceil>years one_general\<rceil>"
    by (simp add: one_general_def)
  show "pricePerUnit (yearly (buildScenarioResult64 pow64 one_general zero_cost unit_market next_revenue triple_scenario) ! 0) = 3377699720527873 / 1125899906842624"
    and "units (yearly (buildScenarioResult64 pow64 one_general zero_cost unit_market next_revenue triple_scenario) ! 0) = 3"
    and "revenue (yearly (buildScenarioResult64 pow64 one_general zero_cost unit_market next_revenue triple_scenario) ! 0) = 2533274790395905 / 281474976710656"
    unfolding build64_row [OF k]
    by (simp_all add: row64_defs unit_market_def next_revenue_def triple_scenario_multipliers
        round64_next_up round64_next_up_3 round64_price_units)
qed

lemma triple_baseline_row64:
  "pricePerUnit (yearly (buildScenarioResult64 pow64 one_general zero_cost unit_market next_revenue
           (triple_scenario\<lparr>adoptionMultiplier := 1, priceMultiplier := 1\<rparr>)) ! 0) = 4503599627370497 / 4503599627370496"
  "units (yearly (buildScenarioResult64 pow64 one_general zero_cost unit_market next_revenue
           (triple_scenario\<lparr>adoptionMultiplier := 1, priceMultiplier := 1\<rparr>)) ! 0) = 1"
  "revenue (yearly (buildScenarioResult64 pow64 one_general zero_cost unit_market next_revenue
           (triple_scenario\<lparr>adoptionMultiplier := 1, priceMultiplier := 1\<rparr>)) ! 0) = 4503599627370497 / 4503599627370496"
proof -
  have k: "0 < nat \<lceil>years one_general\<rceil>"
    by (simp add: one_general_def)
  show "pricePerUnit (yearly (buildScenarioResult64 pow64 one_general zero_cost unit_market next_revenue
           (triple_scenario\<lparr>adoptionMultiplier := 1, priceMultiplier := 1\<rparr>)) ! 0) = 4503599627370497 / 4503599627370496"
    and "units (yearly (buildScenarioResult64 pow64 one_general zero_cost unit_market next_revenue
           (triple_scenario\<lparr>adoptionMultiplier := 1, priceMultiplier := 1\<rparr>)) ! 0) = 1"
    and "revenue (yearly (buildScenarioResult64 pow64 one_general zero_cost unit_market next_revenue
           (triple_scenario\<lparr>adoptionMultiplier := 1, priceMultiplier := 1\<rparr>)) ! 0) = 4503599627370497 / 4503599627370496"
    unfolding build64_row [OF k]
    by (simp_all add: row64_defs unit_market_def next_revenue_def round64_next_up)
qed


section \<open>The claims\<close>

text \<open>
  Claim C1. Whenever \<^verbatim>\<open>buildScenarioResult\<close> returns a payback year \<open>p\<close>, it is the
  first crossing of the cumulative cash flow: \<open>p\<close> is a year of the run, the cumulative
  cash flow recorded in \<^verbatim>\<open>yearly[p-1]\<close> is at least 0, and the one recorded at every
  earlier index is below 0. The latch is set once: running the same inputs over any
  longer horizon returns the same \<open>p\<close>, whatever the cumulative cash flow does in the
  later years.
\<close>

theorem paybackYear_first_crossing:
  assumes "paybackYear (buildScenarioResult g c m r s) = Some p"
  shows "1 \<le> p \<and> p \<le> length (yearly (buildScenarioResult g c m r s))
    \<and> 0 \<le> cumulativeCashFlow (yearly (buildScenarioResult g c m r s) ! (p - 1))
    \<and> (\<forall>k<p - 1. cumulativeCashFlow (yearly (buildScenarioResult g c m r s) ! k) < 0)
    \<and> (\<forall>h\<ge>years g. paybackYear (buildScenarioResult (g\<lparr>years := h\<rparr>) c m r s) = Some p)"
proof -
  let ?u = "getVariableCostPerUnit (productType g) c"
  let ?R = "runYears c m r s ?u (initState c)"
  let ?n = "nat \<lceil>years g\<rceil>"
  have pb: "st_paybackYear (?R ?n) = Some p"
    using assms by (simp add: build_paybackYear)
  have inv: "1 \<le> p \<and> p \<le> ?n \<and> 0 \<le> st_cumulativeCashFlow (?R p)
      \<and> (\<forall>j. 1 \<le> j \<and> j < p \<longrightarrow> st_cumulativeCashFlow (?R j) < 0)"
  proof -
    have "st_paybackYear (initState c) = None"
      by (simp add: initState_def)
    from run_payback_inv [OF this] have
      "case st_paybackYear (?R ?n) of
         None \<Rightarrow> (\<forall>j. 1 \<le> j \<and> j \<le> ?n \<longrightarrow> st_cumulativeCashFlow (?R j) < 0)
       | Some p \<Rightarrow> 1 \<le> p \<and> p \<le> ?n \<and> 0 \<le> st_cumulativeCashFlow (?R p)
           \<and> (\<forall>j. 1 \<le> j \<and> j < p \<longrightarrow> st_cumulativeCashFlow (?R j) < 0)" .
    with pb show ?thesis by simp
  qed
  then have p1: "1 \<le> p" and pn: "p \<le> ?n" by simp_all
  have a: "p \<le> length (yearly (buildScenarioResult g c m r s))"
    using pn by (simp add: build_length)
  have b: "0 \<le> cumulativeCashFlow (yearly (buildScenarioResult g c m r s) ! (p - 1))"
    using inv p1 pn by (simp add: build_row_cum)
  have c: "\<forall>k<p - 1. cumulativeCashFlow (yearly (buildScenarioResult g c m r s) ! k) < 0"
  proof (intro allI impI)
    fix k assume k: "k < p - 1"
    then have "k < ?n" using pn by simp
    then have "cumulativeCashFlow (yearly (buildScenarioResult g c m r s) ! k) =
        st_cumulativeCashFlow (?R (Suc k))"
      by (rule build_row_cum)
    moreover have "st_cumulativeCashFlow (?R (Suc k)) < 0"
    proof -
      have "1 \<le> Suc k \<and> Suc k < p" using k by simp
      with inv show ?thesis by blast
    qed
    ultimately show "cumulativeCashFlow (yearly (buildScenarioResult g c m r s) ! k) < 0"
      by simp
  qed
  have d: "\<forall>h\<ge>years g. paybackYear (buildScenarioResult (g\<lparr>years := h\<rparr>) c m r s) = Some p"
  proof (intro allI impI)
    fix h assume "years g \<le> h"
    then have "\<lceil>years g\<rceil> \<le> \<lceil>h\<rceil>"
      by (rule ceiling_mono)
    then have "?n \<le> nat \<lceil>h\<rceil>"
      by (rule nat_mono)
    then have "st_paybackYear (?R (nat \<lceil>h\<rceil>)) = Some p"
      using pb by (rule run_payback_latch)
    then show "paybackYear (buildScenarioResult (g\<lparr>years := h\<rparr>) c m r s) = Some p"
      by (simp add: build_paybackYear)
  qed
  from p1 a b c d show ?thesis by blast
qed

theorem paybackYear_first_crossing_witness:
  "paybackYear (buildScenarioResult dip_general dip_cost dip_market ex_revenue ex_scenario) = Some 2
   \<and> 0 \<le> cumulativeCashFlow
         (yearly (buildScenarioResult dip_general dip_cost dip_market ex_revenue ex_scenario) ! 1)
   \<and> cumulativeCashFlow
         (yearly (buildScenarioResult dip_general dip_cost dip_market ex_revenue ex_scenario) ! 0) < 0
   \<and> cumulativeCashFlow
         (yearly (buildScenarioResult dip_general dip_cost dip_market ex_revenue ex_scenario) ! 3) < 0
   \<and> 0 \<le> cumulativeCashFlow
         (yearly (buildScenarioResult dip_general dip_cost dip_market ex_revenue ex_scenario) ! 4)
   \<and> paybackYear
         (buildScenarioResult (dip_general\<lparr>years := 7\<rparr>) dip_cost dip_market ex_revenue ex_scenario)
       = Some 2"
proof -
  have h: "paybackYear (buildScenarioResult dip_general dip_cost dip_market ex_revenue ex_scenario)
      = Some 2"
    by (simp add: dip_result)
  note t = paybackYear_first_crossing [OF h]
  from t have "\<forall>h\<ge>years dip_general. paybackYear
      (buildScenarioResult (dip_general\<lparr>years := h\<rparr>) dip_cost dip_market ex_revenue ex_scenario)
      = Some 2"
    by blast
  moreover have "years dip_general \<le> 7"
    by (simp add: dip_general_def)
  ultimately have "paybackYear
      (buildScenarioResult (dip_general\<lparr>years := 7\<rparr>) dip_cost dip_market ex_revenue ex_scenario)
      = Some 2"
    by blast
  moreover from t have "0 \<le> cumulativeCashFlow
      (yearly (buildScenarioResult dip_general dip_cost dip_market ex_revenue ex_scenario) ! 1)
    \<and> cumulativeCashFlow
      (yearly (buildScenarioResult dip_general dip_cost dip_market ex_revenue ex_scenario) ! 0) < 0"
    by simp
  ultimately show ?thesis
    using h by (simp add: dip_result)
qed

text \<open>
  In exact arithmetic, for a horizon of at least 1, the cumulative cash flow of the last
  entry of \<^verbatim>\<open>yearly\<close> equals \<^verbatim>\<open>-(devCapex + launchMarketingCapex) + totalNetProfit\<close>,
  and the recorded cumulative cash flows are non-decreasing when no net profit is negative.
\<close>

lemma exact_cumulativeCashFlow_last_and_monotone:
  assumes "1 \<le> years g"
  shows "yearly (buildScenarioResult g c m r s) \<noteq> []
    \<and> cumulativeCashFlow (last (yearly (buildScenarioResult g c m r s))) =
        - (devCapex c + launchMarketingCapex c) + totalNetProfit (buildScenarioResult g c m r s)
    \<and> ((\<forall>k<length (yearly (buildScenarioResult g c m r s)).
            0 \<le> netProfit (yearly (buildScenarioResult g c m r s) ! k))
        \<longrightarrow> (\<forall>j k. j \<le> k \<and> k < length (yearly (buildScenarioResult g c m r s))
              \<longrightarrow> cumulativeCashFlow (yearly (buildScenarioResult g c m r s) ! j)
                    \<le> cumulativeCashFlow (yearly (buildScenarioResult g c m r s) ! k)))"
proof -
  let ?u = "getVariableCostPerUnit (productType g) c"
  let ?R = "runYears c m r s ?u (initState c)"
  let ?n = "nat \<lceil>years g\<rceil>"
  let ?Y = "yearly (buildScenarioResult g c m r s)"
  have len: "length ?Y = ?n" by (rule build_length)
  have "1 \<le> \<lceil>years g\<rceil>" using assms by linarith
  then have n1: "1 \<le> ?n" by linarith
  have ne: "?Y \<noteq> []" using len n1 by auto
  obtain n' where n': "?n = Suc n'"
    using n1 by (cases ?n) simp_all
  have lastY: "last ?Y = ?Y ! n'"
    using ne len n' by (simp add: last_conv_nth)
  have "n' < ?n" using n' by simp
  then have "cumulativeCashFlow (?Y ! n') = st_cumulativeCashFlow (?R (Suc n'))"
    by (rule build_row_cum)
  then have lastc: "cumulativeCashFlow (last ?Y) = st_cumulativeCashFlow (?R ?n)"
    by (simp only: lastY n')
  have "totalNetProfit (buildScenarioResult g c m r s) =
      st_cumulativeCashFlow (?R ?n) - st_cumulativeCashFlow (initState c)"
    unfolding build_totalNetProfit build_yearly
    by (rule run_total_netProfit) (simp add: initState_def)
  then have tot: "totalNetProfit (buildScenarioResult g c m r s) =
      st_cumulativeCashFlow (?R ?n) + (devCapex c + launchMarketingCapex c)"
    by (simp add: initState_def)
  have mono: "\<forall>j k. j \<le> k \<and> k < length ?Y
      \<longrightarrow> cumulativeCashFlow (?Y ! j) \<le> cumulativeCashFlow (?Y ! k)"
    if nonneg: "\<forall>k<length ?Y. 0 \<le> netProfit (?Y ! k)"
  proof (intro allI impI)
    fix j k assume jk: "j \<le> k \<and> k < length ?Y"
    have np: "\<forall>i<?n. 0 \<le> netProfitAt c m r s ?u i"
      using nonneg len by (simp add: build_row_netProfit)
    have "st_cumulativeCashFlow (?R (Suc j)) \<le> st_cumulativeCashFlow (?R (Suc k))"
      using jk len np by (intro run_cum_mono [where n = ?n]) simp_all
    moreover have "j < ?n" and "k < ?n"
      using jk len by simp_all
    ultimately show "cumulativeCashFlow (?Y ! j) \<le> cumulativeCashFlow (?Y ! k)"
      by (simp only: build_row_cum)
  qed
  from ne lastc tot mono show ?thesis by simp
qed

text \<open>
  Claim C2, as stated: the last cumulative cash flow equals \<^verbatim>\<open>-(devCapex +
  launchMarketingCapex) + totalNetProfit\<close> exactly. The code adds the net profits to the
  negated upfront cost (line 64) and, separately, to 0 (the \<^verbatim>\<open>reduce\<close> of line 91), and
  each addition rounds. With an upfront cost of \<open>2 ^ 54\<close> and a net profit of 1 in each of
  two years, \<open>- 2 ^ 54 + 1\<close> rounds back to \<open>- 2 ^ 54\<close> twice, while \<open>0 + 1 + 1 = 2\<close> and
  \<open>- 2 ^ 54 + 2\<close> is a double.
\<close>

theorem cumulativeCashFlow64_differs_from_total:
  "cumulativeCashFlow (last (yearly (buildScenarioResult64 pow64 big_general big_cost unit_market unit_revenue ex_scenario))) = - 18014398509481984
   \<and> - (devCapex big_cost + launchMarketingCapex big_cost) + totalNetProfit (buildScenarioResult64 pow64 big_general big_cost unit_market unit_revenue ex_scenario)
       = - 18014398509481982
   \<and> dadd (- dadd (devCapex big_cost) (launchMarketingCapex big_cost)) (totalNetProfit (buildScenarioResult64 pow64 big_general big_cost unit_market unit_revenue ex_scenario))
       = - 18014398509481982
   \<and> cumulativeCashFlow (last (yearly (buildScenarioResult64 pow64 big_general big_cost unit_market unit_revenue ex_scenario)))
       \<noteq> - (devCapex big_cost + launchMarketingCapex big_cost) + totalNetProfit (buildScenarioResult64 pow64 big_general big_cost unit_market unit_revenue ex_scenario)"
  by (simp add: big_result64) (simp add: big_cost_def dadd_def round64_big round64_big_minus_2)

text \<open>
  Claim C2, amended. For a horizon of at least 1, the cumulative cash flow of the last entry
  of \<^verbatim>\<open>yearly\<close> is the net profits of the years added one by one, in year order, to
  \<^verbatim>\<open>-(devCapex + launchMarketingCapex)\<close>, and \<^verbatim>\<open>totalNetProfit\<close> is the same net
  profits added in the same order to 0, every addition rounded to a double. The last
  cumulative cash flow equals \<^verbatim>\<open>-(devCapex + launchMarketingCapex) + totalNetProfit\<close>
  when the additions are exact (real arithmetic); with the rounded additions of the code
  the two can differ. If the net profit of every year is at least 0, the recorded
  cumulative cash flows are non-decreasing in the year.
\<close>

theorem cumulativeCashFlow64_accumulated_and_monotone:
  assumes "1 \<le> years g"
  shows "yearly (buildScenarioResult64 pw g c m r s) \<noteq> []
    \<and> cumulativeCashFlow (last (yearly (buildScenarioResult64 pw g c m r s))) =
        foldl (\<lambda>a y. dadd a (netProfit y)) (- dadd (devCapex c) (launchMarketingCapex c))
          (yearly (buildScenarioResult64 pw g c m r s))
    \<and> totalNetProfit (buildScenarioResult64 pw g c m r s) =
        foldl (\<lambda>a y. dadd a (netProfit y)) 0 (yearly (buildScenarioResult64 pw g c m r s))
    \<and> ((\<forall>k<length (yearly (buildScenarioResult64 pw g c m r s)).
            0 \<le> netProfit (yearly (buildScenarioResult64 pw g c m r s) ! k))
        \<longrightarrow> (\<forall>j k. j \<le> k \<and> k < length (yearly (buildScenarioResult64 pw g c m r s))
              \<longrightarrow> cumulativeCashFlow (yearly (buildScenarioResult64 pw g c m r s) ! j)
                    \<le> cumulativeCashFlow (yearly (buildScenarioResult64 pw g c m r s) ! k)))
    \<and> cumulativeCashFlow (last (yearly (buildScenarioResult g c m r s))) =
        - (devCapex c + launchMarketingCapex c) + totalNetProfit (buildScenarioResult g c m r s)"
proof -
  let ?u = "getVariableCostPerUnit64 (productType g) c"
  let ?R = "runYears64 pw c m r s ?u (initState64 c)"
  let ?n = "nat \<lceil>years g\<rceil>"
  let ?Y = "yearly (buildScenarioResult64 pw g c m r s)"
  have len: "length ?Y = ?n" by (rule build64_length)
  have "1 \<le> \<lceil>years g\<rceil>" using assms by linarith
  then have n1: "1 \<le> ?n" by linarith
  have ne: "?Y \<noteq> []" using len n1 by auto
  obtain n' where n': "?n = Suc n'"
    using n1 by (cases ?n) simp_all
  have lastY: "last ?Y = ?Y ! n'"
    using ne len n' by (simp add: last_conv_nth)
  have "n' < ?n" using n' by simp
  then have "cumulativeCashFlow (?Y ! n') = st_cumulativeCashFlow (?R (Suc n'))"
    by (rule build64_row_cum)
  then have "cumulativeCashFlow (last ?Y) = st_cumulativeCashFlow (?R ?n)"
    by (simp only: lastY n')
  also have "\<dots> = foldl (\<lambda>a y. dadd a (netProfit y)) (st_cumulativeCashFlow (initState64 c))
      (st_yearly (?R ?n))"
    by (rule run64_cum_fold) (simp add: initState64_def)
  finally have acc: "cumulativeCashFlow (last ?Y) =
      foldl (\<lambda>a y. dadd a (netProfit y)) (- dadd (devCapex c) (launchMarketingCapex c)) ?Y"
    by (simp add: build64_yearly initState64_def)
  have tot: "totalNetProfit (buildScenarioResult64 pw g c m r s) =
      foldl (\<lambda>a y. dadd a (netProfit y)) 0 ?Y"
    by (rule build64_totalNetProfit)
  have mono: "\<forall>j k. j \<le> k \<and> k < length ?Y
      \<longrightarrow> cumulativeCashFlow (?Y ! j) \<le> cumulativeCashFlow (?Y ! k)"
    if nonneg: "\<forall>k<length ?Y. 0 \<le> netProfit (?Y ! k)"
  proof (intro allI impI)
    fix j k assume jk: "j \<le> k \<and> k < length ?Y"
    have np: "\<forall>i<?n. 0 \<le> netProfit64At pw c m r s ?u i"
      using nonneg len by (simp add: build64_row yearRow64_def)
    have "st_cumulativeCashFlow (?R (Suc j)) \<le> st_cumulativeCashFlow (?R (Suc k))"
      using jk len np
      by (intro run64_cum_mono [where n = ?n] initState64_fixed) simp_all
    moreover have "j < ?n" and "k < ?n"
      using jk len by simp_all
    ultimately show "cumulativeCashFlow (?Y ! j) \<le> cumulativeCashFlow (?Y ! k)"
      by (simp only: build64_row_cum)
  qed
  have exact: "cumulativeCashFlow (last (yearly (buildScenarioResult g c m r s))) =
      - (devCapex c + launchMarketingCapex c) + totalNetProfit (buildScenarioResult g c m r s)"
    using exact_cumulativeCashFlow_last_and_monotone [OF assms] by blast
  from ne acc tot mono exact show ?thesis by blast
qed

theorem cumulativeCashFlow64_accumulated_and_monotone_witness:
  "1 \<le> years big_general
   \<and> cumulativeCashFlow (last (yearly (buildScenarioResult64 pow64 big_general big_cost unit_market unit_revenue ex_scenario))) =
       foldl (\<lambda>a y. dadd a (netProfit y))
         (- dadd (devCapex big_cost) (launchMarketingCapex big_cost)) (yearly (buildScenarioResult64 pow64 big_general big_cost unit_market unit_revenue ex_scenario))
   \<and> cumulativeCashFlow (last (yearly (buildScenarioResult64 pow64 big_general big_cost unit_market unit_revenue ex_scenario))) = - 18014398509481984
   \<and> totalNetProfit (buildScenarioResult64 pow64 big_general big_cost unit_market unit_revenue ex_scenario) = foldl (\<lambda>a y. dadd a (netProfit y)) 0 (yearly (buildScenarioResult64 pow64 big_general big_cost unit_market unit_revenue ex_scenario))
   \<and> totalNetProfit (buildScenarioResult64 pow64 big_general big_cost unit_market unit_revenue ex_scenario) = 2
   \<and> cumulativeCashFlow (yearly (buildScenarioResult64 pow64 big_general big_cost unit_market unit_revenue ex_scenario) ! 0) \<le> cumulativeCashFlow (yearly (buildScenarioResult64 pow64 big_general big_cost unit_market unit_revenue ex_scenario) ! 1)
   \<and> cumulativeCashFlow
        (last (yearly (buildScenarioResult big_general big_cost unit_market unit_revenue ex_scenario)))
      = - (devCapex big_cost + launchMarketingCapex big_cost)
        + totalNetProfit (buildScenarioResult big_general big_cost unit_market unit_revenue ex_scenario)"
proof -
  let ?Y = "yearly (buildScenarioResult64 pow64 big_general big_cost unit_market unit_revenue ex_scenario)"
  have h: "1 \<le> years big_general"
    by (simp add: big_general_def)
  note t = cumulativeCashFlow64_accumulated_and_monotone
    [OF h, of pow64 big_cost unit_market unit_revenue ex_scenario]
  have "\<forall>k<length ?Y. 0 \<le> netProfit (?Y ! k)"
    by (auto simp add: big_result64 less_Suc_eq numeral_2_eq_2)
  with t have "\<forall>j k. j \<le> k \<and> k < length ?Y
      \<longrightarrow> cumulativeCashFlow (?Y ! j) \<le> cumulativeCashFlow (?Y ! k)"
    by blast
  moreover have "(0::nat) \<le> 1 \<and> 1 < length ?Y"
    by (simp add: big_result64)
  ultimately have mono: "cumulativeCashFlow (?Y ! 0) \<le> cumulativeCashFlow (?Y ! 1)"
    by blast
  have val: "cumulativeCashFlow (last ?Y) = - 18014398509481984" and tot: "totalNetProfit (buildScenarioResult64 pow64 big_general big_cost unit_market unit_revenue ex_scenario) = 2"
    by (simp_all add: big_result64)
  from t h mono val tot show ?thesis by blast
qed

text \<open>
  Claim C3. \<^verbatim>\<open>breakEvenUnits\<close> is \<^verbatim>\<open>(devCapex + launchMarketingCapex) /
  (basePricePerUnit - unitVariableCost)\<close> when that margin is positive and the absent
  marker \<^verbatim>\<open>null\<close> otherwise, in particular whenever \<^verbatim>\<open>basePricePerUnit <=
  unitVariableCost\<close>. It does not depend on the scenario, the price growth rate or the
  horizon.
\<close>

theorem breakEvenUnits_by_contribution_margin:
  "(0 < basePricePerUnit r - getVariableCostPerUnit (productType g) c \<longrightarrow>
      breakEvenUnits (buildScenarioResult g c m r s) =
        Some ((devCapex c + launchMarketingCapex c)
                / (basePricePerUnit r - getVariableCostPerUnit (productType g) c)))
   \<and> (\<not> 0 < basePricePerUnit r - getVariableCostPerUnit (productType g) c \<longrightarrow>
      breakEvenUnits (buildScenarioResult g c m r s) = None)
   \<and> (basePricePerUnit r \<le> getVariableCostPerUnit (productType g) c \<longrightarrow>
      breakEvenUnits (buildScenarioResult g c m r s) = None)
   \<and> (\<forall>s' gr h. breakEvenUnits
          (buildScenarioResult (g\<lparr>years := h\<rparr>) c m (r\<lparr>annualPriceGrowthPct := gr\<rparr>) s') =
        breakEvenUnits (buildScenarioResult g c m r s))"
  by (simp add: build_breakEvenUnits)

theorem breakEvenUnits_by_contribution_margin_witness:
  "0 < basePricePerUnit ex_revenue - getVariableCostPerUnit (productType ex_general) ex_cost
   \<and> breakEvenUnits (buildScenarioResult ex_general ex_cost ex_market ex_revenue ex_scenario) = Some (1000 / 9)
   \<and> basePricePerUnit ex_revenue \<le> getVariableCostPerUnit (productType hw_general) ex_cost
   \<and> breakEvenUnits (buildScenarioResult hw_general ex_cost ex_market ex_revenue ex_scenario) = None
   \<and> breakEvenUnits
         (buildScenarioResult (ex_general\<lparr>years := 7\<rparr>) ex_cost ex_market
            (ex_revenue\<lparr>annualPriceGrowthPct := 5\<rparr>) up_scenario) = Some (1000 / 9)"
proof -
  have a: "0 < basePricePerUnit ex_revenue - getVariableCostPerUnit (productType ex_general) ex_cost"
    by (simp add: ex_revenue_def ex_general_def ex_cost_def)
  have b: "basePricePerUnit ex_revenue \<le> getVariableCostPerUnit (productType hw_general) ex_cost"
    by (simp add: ex_revenue_def hw_general_def ex_cost_def)
  note t = breakEvenUnits_by_contribution_margin
    [of ex_revenue ex_general ex_cost ex_market ex_scenario]
  note t' = breakEvenUnits_by_contribution_margin
    [of ex_revenue hw_general ex_cost ex_market ex_scenario]
  from t have "breakEvenUnits
         (buildScenarioResult (ex_general\<lparr>years := 7\<rparr>) ex_cost ex_market
            (ex_revenue\<lparr>annualPriceGrowthPct := 5\<rparr>) up_scenario)
      = breakEvenUnits (buildScenarioResult ex_general ex_cost ex_market ex_revenue ex_scenario)"
    by blast
  moreover from t a have "breakEvenUnits (buildScenarioResult ex_general ex_cost ex_market ex_revenue ex_scenario) = Some (1000 / 9)"
    by (simp add: ex_revenue_def ex_general_def ex_cost_def)
  moreover from t' b have "breakEvenUnits (buildScenarioResult hw_general ex_cost ex_market ex_revenue ex_scenario) = None"
    by blast
  ultimately show ?thesis using a b by simp
qed

text \<open>
  Claim C4. The variable cost per unit is one value chosen by the product type: for
  software \<^verbatim>\<open>infraCostPerUser + licenseCostPerUser + supportCostPerUnit\<close>, for hardware
  \<^verbatim>\<open>manufacturingCostPerUnit + shippingCostPerUnit + packagingCostPerUnit +
  supportCostPerUnit\<close>. It is the same in every year of a call: the variable cost of each
  year is this value times the units of that year.
\<close>

theorem variableCost_constant_per_unit:
  "getVariableCostPerUnit software c =
      infraCostPerUser c + licenseCostPerUser c + supportCostPerUnit c
   \<and> getVariableCostPerUnit hardware c =
      manufacturingCostPerUnit c + shippingCostPerUnit c + packagingCostPerUnit c
        + supportCostPerUnit c
   \<and> (\<forall>k<length (yearly (buildScenarioResult g c m r s)).
        variableCost (yearly (buildScenarioResult g c m r s) ! k) =
          getVariableCostPerUnit (productType g) c
            * units (yearly (buildScenarioResult g c m r s) ! k))"
  by (simp add: build_length build_row yearRow_def)

theorem variableCost_constant_per_unit_witness:
  "variableCost (yearly (buildScenarioResult ex_general ex_cost ex_market ex_revenue ex_scenario) ! 0) = 1 * units (yearly (buildScenarioResult ex_general ex_cost ex_market ex_revenue ex_scenario) ! 0)
   \<and> variableCost (yearly (buildScenarioResult ex_general ex_cost ex_market ex_revenue ex_scenario) ! 1) = 1 * units (yearly (buildScenarioResult ex_general ex_cost ex_market ex_revenue ex_scenario) ! 1)
   \<and> variableCost (yearly (buildScenarioResult hw_general ex_cost ex_market ex_revenue ex_scenario) ! 1) = 48 * units (yearly (buildScenarioResult hw_general ex_cost ex_market ex_revenue ex_scenario) ! 1)"
proof -
  note t = variableCost_constant_per_unit [of ex_cost ex_general ex_market ex_revenue ex_scenario]
  note t' = variableCost_constant_per_unit [of ex_cost hw_general ex_market ex_revenue ex_scenario]
  have "(0::nat) < length (yearly (buildScenarioResult ex_general ex_cost ex_market ex_revenue ex_scenario))" and "(1::nat) < length (yearly (buildScenarioResult ex_general ex_cost ex_market ex_revenue ex_scenario))"
    and "(1::nat) < length (yearly (buildScenarioResult hw_general ex_cost ex_market ex_revenue ex_scenario))"
    by (simp_all add: ex_result hw_result)
  with t t' have "variableCost (yearly (buildScenarioResult ex_general ex_cost ex_market ex_revenue ex_scenario) ! 0) =
        getVariableCostPerUnit (productType ex_general) ex_cost * units (yearly (buildScenarioResult ex_general ex_cost ex_market ex_revenue ex_scenario) ! 0)
    \<and> variableCost (yearly (buildScenarioResult ex_general ex_cost ex_market ex_revenue ex_scenario) ! 1) =
        getVariableCostPerUnit (productType ex_general) ex_cost * units (yearly (buildScenarioResult ex_general ex_cost ex_market ex_revenue ex_scenario) ! 1)
    \<and> variableCost (yearly (buildScenarioResult hw_general ex_cost ex_market ex_revenue ex_scenario) ! 1) =
        getVariableCostPerUnit (productType hw_general) ex_cost * units (yearly (buildScenarioResult hw_general ex_cost ex_market ex_revenue ex_scenario) ! 1)"
    by blast
  then show ?thesis
    by (simp add: ex_general_def hw_general_def ex_cost_def)
qed

text \<open>
  Claim C5. When the horizon is a non-negative integer \<open>n\<close>, \<^verbatim>\<open>yearly\<close> has exactly
  \<open>n\<close> entries and the entry at index \<open>k\<close> has \<^verbatim>\<open>year\<close> \<open>k + 1\<close>; a horizon of 0 gives
  the empty sequence.
\<close>

theorem yearly_length_and_year_labels:
  assumes "years g = real n"
  shows "length (yearly (buildScenarioResult g c m r s)) = n
    \<and> (\<forall>k<n. year (yearly (buildScenarioResult g c m r s) ! k) = k + 1)
    \<and> (n = 0 \<longrightarrow> yearly (buildScenarioResult g c m r s) = [])"
proof -
  have n: "nat \<lceil>years g\<rceil> = n" using assms by simp
  have len: "length (yearly (buildScenarioResult g c m r s)) = n"
    using n by (simp add: build_length)
  moreover have "\<forall>k<n. year (yearly (buildScenarioResult g c m r s) ! k) = k + 1"
    using n by (simp add: build_row yearRow_def)
  moreover have "n = 0 \<longrightarrow> yearly (buildScenarioResult g c m r s) = []"
    using len by auto
  ultimately show ?thesis by blast
qed

theorem yearly_length_and_year_labels_witness:
  "years ex_general = real 2
   \<and> length (yearly (buildScenarioResult ex_general ex_cost ex_market ex_revenue ex_scenario)) = 2
   \<and> year (yearly (buildScenarioResult ex_general ex_cost ex_market ex_revenue ex_scenario) ! 0) = 1 \<and> year (yearly (buildScenarioResult ex_general ex_cost ex_market ex_revenue ex_scenario) ! 1) = 2
   \<and> years zero_general = real 0
   \<and> yearly (buildScenarioResult zero_general free_cost ex_market ex_revenue ex_scenario) = []"
proof -
  have a: "years ex_general = real 2"
    by (simp add: ex_general_def)
  have b: "years zero_general = real 0"
    by (simp add: zero_general_def)
  note t = yearly_length_and_year_labels [OF a, of ex_cost ex_market ex_revenue ex_scenario]
  note t' = yearly_length_and_year_labels [OF b, of free_cost ex_market ex_revenue ex_scenario]
  from t have "year (yearly (buildScenarioResult ex_general ex_cost ex_market ex_revenue ex_scenario) ! 0) = 0 + 1 \<and> year (yearly (buildScenarioResult ex_general ex_cost ex_market ex_revenue ex_scenario) ! 1) = 1 + 1"
    by simp
  with t t' a b show ?thesis by simp
qed

text \<open>
  Claim C6. In every year, if the revenue is positive then \<^verbatim>\<open>grossMarginPct =
  grossProfit / revenue * 100\<close> and \<^verbatim>\<open>netMarginPct = netProfit / revenue * 100\<close>;
  otherwise both percentages are 0, whatever the sign of the profits, and no division
  by a revenue of 0 takes place.
\<close>

theorem margin_pct_guarded_by_revenue:
  "\<forall>k<length (yearly (buildScenarioResult g c m r s)).
     (0 < revenue (yearly (buildScenarioResult g c m r s) ! k) \<longrightarrow>
        grossMarginPct (yearly (buildScenarioResult g c m r s) ! k) =
          grossProfit (yearly (buildScenarioResult g c m r s) ! k)
            / revenue (yearly (buildScenarioResult g c m r s) ! k) * 100
        \<and> netMarginPct (yearly (buildScenarioResult g c m r s) ! k) =
          netProfit (yearly (buildScenarioResult g c m r s) ! k)
            / revenue (yearly (buildScenarioResult g c m r s) ! k) * 100)
     \<and> (\<not> 0 < revenue (yearly (buildScenarioResult g c m r s) ! k) \<longrightarrow>
        grossMarginPct (yearly (buildScenarioResult g c m r s) ! k) = 0
        \<and> netMarginPct (yearly (buildScenarioResult g c m r s) ! k) = 0)"
  by (simp add: build_length build_row yearRow_def)

theorem margin_pct_guarded_by_revenue_witness:
  "0 < revenue (yearly (buildScenarioResult short_general dip_cost short_market ex_revenue ex_scenario) ! 0)
   \<and> grossMarginPct (yearly (buildScenarioResult short_general dip_cost short_market ex_revenue ex_scenario) ! 0) = 4500 / 5000 * 100
   \<and> netMarginPct (yearly (buildScenarioResult short_general dip_cost short_market ex_revenue ex_scenario) ! 0) = 4000 / 5000 * 100
   \<and> \<not> 0 < revenue (yearly (buildScenarioResult short_general dip_cost short_market ex_revenue ex_scenario) ! 1)
   \<and> netProfit (yearly (buildScenarioResult short_general dip_cost short_market ex_revenue ex_scenario) ! 1) < 0
   \<and> grossMarginPct (yearly (buildScenarioResult short_general dip_cost short_market ex_revenue ex_scenario) ! 1) = 0
   \<and> netMarginPct (yearly (buildScenarioResult short_general dip_cost short_market ex_revenue ex_scenario) ! 1) = 0"
proof -
  note t = margin_pct_guarded_by_revenue [of short_general dip_cost short_market ex_revenue ex_scenario]
  have "(0::nat) < length (yearly (buildScenarioResult short_general dip_cost short_market ex_revenue ex_scenario))" and "(1::nat) < length (yearly (buildScenarioResult short_general dip_cost short_market ex_revenue ex_scenario))"
    by (simp_all add: short_result)
  with t have
    "(0 < revenue (yearly (buildScenarioResult short_general dip_cost short_market ex_revenue ex_scenario) ! 0) \<longrightarrow>
        grossMarginPct (yearly (buildScenarioResult short_general dip_cost short_market ex_revenue ex_scenario) ! 0) = grossProfit (yearly (buildScenarioResult short_general dip_cost short_market ex_revenue ex_scenario) ! 0) / revenue (yearly (buildScenarioResult short_general dip_cost short_market ex_revenue ex_scenario) ! 0) * 100
      \<and> netMarginPct (yearly (buildScenarioResult short_general dip_cost short_market ex_revenue ex_scenario) ! 0) = netProfit (yearly (buildScenarioResult short_general dip_cost short_market ex_revenue ex_scenario) ! 0) / revenue (yearly (buildScenarioResult short_general dip_cost short_market ex_revenue ex_scenario) ! 0) * 100)
     \<and> (\<not> 0 < revenue (yearly (buildScenarioResult short_general dip_cost short_market ex_revenue ex_scenario) ! 1) \<longrightarrow>
        grossMarginPct (yearly (buildScenarioResult short_general dip_cost short_market ex_revenue ex_scenario) ! 1) = 0 \<and> netMarginPct (yearly (buildScenarioResult short_general dip_cost short_market ex_revenue ex_scenario) ! 1) = 0)"
    by blast
  moreover have "0 < revenue (yearly (buildScenarioResult short_general dip_cost short_market ex_revenue ex_scenario) ! 0)" and "\<not> 0 < revenue (yearly (buildScenarioResult short_general dip_cost short_market ex_revenue ex_scenario) ! 1)"
    and "netProfit (yearly (buildScenarioResult short_general dip_cost short_market ex_revenue ex_scenario) ! 1) < 0"
    and "grossProfit (yearly (buildScenarioResult short_general dip_cost short_market ex_revenue ex_scenario) ! 0) = 4500" and "netProfit (yearly (buildScenarioResult short_general dip_cost short_market ex_revenue ex_scenario) ! 0) = 4000"
    and "revenue (yearly (buildScenarioResult short_general dip_cost short_market ex_revenue ex_scenario) ! 0) = 5000"
    by (simp_all add: short_result)
  ultimately show ?thesis by simp
qed

text \<open>
  In exact arithmetic, compared with the baseline run (the same call with both multipliers
  set to 1), the price per unit of each year is \<^verbatim>\<open>priceMultiplier\<close> times the baseline
  price, the units are \<^verbatim>\<open>adoptionMultiplier\<close> times the baseline units, and the revenue
  is the product of the two multipliers times the baseline revenue. The baseline rows
  carry the unscaled price and the units of the market funnel.
\<close>

lemma exact_scenario_multipliers_scale_baseline:
  "length (yearly (buildScenarioResult g c m r s)) =
     length (yearly (buildScenarioResult g c m r (s\<lparr>adoptionMultiplier := 1, priceMultiplier := 1\<rparr>)))
   \<and> (\<forall>k<length (yearly (buildScenarioResult g c m r s)).
        pricePerUnit (yearly (buildScenarioResult g c m r s) ! k) =
          priceMultiplier s
            * pricePerUnit (yearly (buildScenarioResult g c m r
                (s\<lparr>adoptionMultiplier := 1, priceMultiplier := 1\<rparr>)) ! k)
      \<and> units (yearly (buildScenarioResult g c m r s) ! k) =
          adoptionMultiplier s
            * units (yearly (buildScenarioResult g c m r
                (s\<lparr>adoptionMultiplier := 1, priceMultiplier := 1\<rparr>)) ! k)
      \<and> revenue (yearly (buildScenarioResult g c m r s) ! k) =
          priceMultiplier s * adoptionMultiplier s
            * revenue (yearly (buildScenarioResult g c m r
                (s\<lparr>adoptionMultiplier := 1, priceMultiplier := 1\<rparr>)) ! k)
      \<and> pricePerUnit (yearly (buildScenarioResult g c m r
            (s\<lparr>adoptionMultiplier := 1, priceMultiplier := 1\<rparr>)) ! k) =
          basePricePerUnit r * (1 + annualPriceGrowthPct r / 100) ^ k
      \<and> units (yearly (buildScenarioResult g c m r
            (s\<lparr>adoptionMultiplier := 1, priceMultiplier := 1\<rparr>)) ! k) =
          nth_or_zero (tamUnitsPerYear m) k * (samPct m / 100) * (somPct m / 100)
            * (nth_or_zero (adoptionPctPerYear m) k / 100))
   \<and> (priceMultiplier s = 1 \<and> adoptionMultiplier s = 1 \<longrightarrow>
        buildScenarioResult g c m r s =
          buildScenarioResult g c m r (s\<lparr>adoptionMultiplier := 1, priceMultiplier := 1\<rparr>))"
proof (intro conjI allI impI)
  assume "priceMultiplier s = 1 \<and> adoptionMultiplier s = 1"
  then have "s\<lparr>adoptionMultiplier := 1, priceMultiplier := 1\<rparr> = s"
    by simp
  then show "buildScenarioResult g c m r s =
      buildScenarioResult g c m r (s\<lparr>adoptionMultiplier := 1, priceMultiplier := 1\<rparr>)"
    by (simp only:)
qed (simp_all add: build_length build_row yearRow_def priceAt_def unitsAt_def)

text \<open>
  Claim C7, as stated: the revenue of each year equals \<^verbatim>\<open>priceMultiplier *
  adoptionMultiplier\<close> times the baseline revenue. The code multiplies the scaled price by
  the scaled units, \<^verbatim>\<open>(basePrice * priceMultiplier) * (baseUnits * adoptionMultiplier)\<close>,
  and each product rounds. With a base price of \<open>1 + 2 powi - 52\<close>, one unit and both
  multipliers 3, the revenue is \<open>9 + 2 powi - 48\<close>; 9 times the baseline revenue is
  \<open>9 + 9 * 2 powi - 52\<close>, which rounds to \<open>9 + 2 powi - 49\<close>.
\<close>

theorem revenue64_differs_from_scaled_baseline:
  "revenue (yearly (buildScenarioResult64 pow64 one_general zero_cost unit_market next_revenue triple_scenario) ! 0) = 2533274790395905 / 281474976710656
   \<and> priceMultiplier triple_scenario * adoptionMultiplier triple_scenario
       * revenue (yearly (buildScenarioResult64 pow64 one_general zero_cost unit_market next_revenue
           (triple_scenario\<lparr>adoptionMultiplier := 1, priceMultiplier := 1\<rparr>)) ! 0) = 40532396646334473 / 4503599627370496
   \<and> dmul (dmul (priceMultiplier triple_scenario) (adoptionMultiplier triple_scenario))
        (revenue (yearly (buildScenarioResult64 pow64 one_general zero_cost unit_market next_revenue
           (triple_scenario\<lparr>adoptionMultiplier := 1, priceMultiplier := 1\<rparr>)) ! 0)) = 5066549580791809 / 562949953421312
   \<and> revenue (yearly (buildScenarioResult64 pow64 one_general zero_cost unit_market next_revenue triple_scenario) ! 0)
       \<noteq> priceMultiplier triple_scenario * adoptionMultiplier triple_scenario
           * revenue (yearly (buildScenarioResult64 pow64 one_general zero_cost unit_market next_revenue
           (triple_scenario\<lparr>adoptionMultiplier := 1, priceMultiplier := 1\<rparr>)) ! 0)
   \<and> revenue (yearly (buildScenarioResult64 pow64 one_general zero_cost unit_market next_revenue triple_scenario) ! 0)
       \<noteq> dmul (dmul (priceMultiplier triple_scenario) (adoptionMultiplier triple_scenario))
           (revenue (yearly (buildScenarioResult64 pow64 one_general zero_cost unit_market next_revenue
           (triple_scenario\<lparr>adoptionMultiplier := 1, priceMultiplier := 1\<rparr>)) ! 0))"
  by (simp add: triple_row64 triple_baseline_row64 triple_scenario_multipliers dmul_def
      round64_numeral round64_9_next_up)

text \<open>
  Claim C7, amended. For every scenario \<open>s\<close>, compared with the baseline run (the same call
  with both multipliers set to 1): the price per unit of each year is \<^verbatim>\<open>priceMultiplier\<close>
  times the baseline price and the units are \<^verbatim>\<open>adoptionMultiplier\<close> times the baseline
  units, each as one rounded double product, and the baseline rows carry the unscaled price
  and the units of the market funnel. The revenue of each year is the rounded product of
  that year's price per unit and units; it equals \<^verbatim>\<open>priceMultiplier *
  adoptionMultiplier\<close> times the baseline revenue when the products are exact (real
  arithmetic), and with the rounded products of the code the two can differ. A scenario
  whose multipliers are both 1 returns the baseline result itself, with the unscaled price
  and units in every row.
\<close>

theorem scenario_multipliers_scale_baseline64:
  "length (yearly (buildScenarioResult64 pw g c m r s)) =
     length (yearly (buildScenarioResult64 pw g c m r
       (s\<lparr>adoptionMultiplier := 1, priceMultiplier := 1\<rparr>)))
   \<and> (\<forall>k<length (yearly (buildScenarioResult64 pw g c m r s)).
        pricePerUnit (yearly (buildScenarioResult64 pw g c m r s) ! k) =
          dmul (priceMultiplier s)
            (pricePerUnit (yearly (buildScenarioResult64 pw g c m r
                (s\<lparr>adoptionMultiplier := 1, priceMultiplier := 1\<rparr>)) ! k))
      \<and> units (yearly (buildScenarioResult64 pw g c m r s) ! k) =
          dmul (adoptionMultiplier s)
            (units (yearly (buildScenarioResult64 pw g c m r
                (s\<lparr>adoptionMultiplier := 1, priceMultiplier := 1\<rparr>)) ! k))
      \<and> revenue (yearly (buildScenarioResult64 pw g c m r s) ! k) =
          dmul (pricePerUnit (yearly (buildScenarioResult64 pw g c m r s) ! k))
            (units (yearly (buildScenarioResult64 pw g c m r s) ! k))
      \<and> pricePerUnit (yearly (buildScenarioResult64 pw g c m r
            (s\<lparr>adoptionMultiplier := 1, priceMultiplier := 1\<rparr>)) ! k) =
          dmul (basePricePerUnit r) (pw (dadd 1 (ddiv (annualPriceGrowthPct r) 100)) k)
      \<and> units (yearly (buildScenarioResult64 pw g c m r
            (s\<lparr>adoptionMultiplier := 1, priceMultiplier := 1\<rparr>)) ! k) =
          dmul (dmul (dmul (nth_or_zero (tamUnitsPerYear m) k) (ddiv (samPct m) 100))
                  (ddiv (somPct m) 100))
            (ddiv (nth_or_zero (adoptionPctPerYear m) k) 100))
   \<and> (priceMultiplier s = 1 \<and> adoptionMultiplier s = 1 \<longrightarrow>
        buildScenarioResult64 pw g c m r s =
          buildScenarioResult64 pw g c m r (s\<lparr>adoptionMultiplier := 1, priceMultiplier := 1\<rparr>)
        \<and> (\<forall>k<length (yearly (buildScenarioResult64 pw g c m r s)).
             pricePerUnit (yearly (buildScenarioResult64 pw g c m r s) ! k) =
               dmul (basePricePerUnit r) (pw (dadd 1 (ddiv (annualPriceGrowthPct r) 100)) k)
           \<and> units (yearly (buildScenarioResult64 pw g c m r s) ! k) =
               dmul (dmul (dmul (nth_or_zero (tamUnitsPerYear m) k) (ddiv (samPct m) 100))
                       (ddiv (somPct m) 100))
                 (ddiv (nth_or_zero (adoptionPctPerYear m) k) 100)))
   \<and> (\<forall>k<length (yearly (buildScenarioResult g c m r s)).
        revenue (yearly (buildScenarioResult g c m r s) ! k) =
          priceMultiplier s * adoptionMultiplier s
            * revenue (yearly (buildScenarioResult g c m r
                (s\<lparr>adoptionMultiplier := 1, priceMultiplier := 1\<rparr>)) ! k))"
proof (intro conjI allI impI)
  assume "priceMultiplier s = 1 \<and> adoptionMultiplier s = 1"
  then have "s\<lparr>adoptionMultiplier := 1, priceMultiplier := 1\<rparr> = s"
    by simp
  then show "buildScenarioResult64 pw g c m r s =
      buildScenarioResult64 pw g c m r (s\<lparr>adoptionMultiplier := 1, priceMultiplier := 1\<rparr>)"
    by (simp only:)
next
  fix k assume "k < length (yearly (buildScenarioResult g c m r s))"
  then show "revenue (yearly (buildScenarioResult g c m r s) ! k) =
          priceMultiplier s * adoptionMultiplier s
            * revenue (yearly (buildScenarioResult g c m r
                (s\<lparr>adoptionMultiplier := 1, priceMultiplier := 1\<rparr>)) ! k)"
    using exact_scenario_multipliers_scale_baseline [of g c m r s] by blast
qed (simp_all add: build64_length build64_row yearRow64_def revenue64At_def price64At_def
       units64At_def basePrice64At_def baseUnits64At_def dmul_def mult.commute)

theorem scenario_multipliers_scale_baseline64_witness:
  "pricePerUnit (yearly (buildScenarioResult64 pow64 one_general zero_cost unit_market next_revenue triple_scenario) ! 0) = dmul 3 (4503599627370497 / 4503599627370496)
   \<and> units (yearly (buildScenarioResult64 pow64 one_general zero_cost unit_market next_revenue triple_scenario) ! 0) = dmul 3 1
   \<and> revenue (yearly (buildScenarioResult64 pow64 one_general zero_cost unit_market next_revenue triple_scenario) ! 0) = dmul (3377699720527873 / 1125899906842624) 3
   \<and> revenue (yearly (buildScenarioResult one_general zero_cost unit_market next_revenue triple_scenario) ! 0) = 3 * 3 * revenue (yearly (buildScenarioResult one_general zero_cost unit_market next_revenue
           (triple_scenario\<lparr>adoptionMultiplier := 1, priceMultiplier := 1\<rparr>)) ! 0)
   \<and> priceMultiplier ex_scenario = 1 \<and> adoptionMultiplier ex_scenario = 1
   \<and> pricePerUnit (yearly (buildScenarioResult64 pow64 one_general zero_cost unit_market next_revenue ex_scenario) ! 0) = 4503599627370497 / 4503599627370496
   \<and> units (yearly (buildScenarioResult64 pow64 one_general zero_cost unit_market next_revenue ex_scenario) ! 0) = 1"
proof -
  note t = scenario_multipliers_scale_baseline64
    [of pow64 one_general zero_cost unit_market next_revenue triple_scenario]
  note t' = scenario_multipliers_scale_baseline64
    [of pow64 one_general zero_cost unit_market next_revenue ex_scenario]
  have "(0::nat) < length (yearly (buildScenarioResult64 pow64 one_general zero_cost unit_market next_revenue triple_scenario))"
    by (simp add: build64_length one_general_def)
  with t have "pricePerUnit (yearly (buildScenarioResult64 pow64 one_general zero_cost unit_market next_revenue triple_scenario) ! 0) =
        dmul (priceMultiplier triple_scenario) (pricePerUnit (yearly (buildScenarioResult64 pow64 one_general zero_cost unit_market next_revenue
           (triple_scenario\<lparr>adoptionMultiplier := 1, priceMultiplier := 1\<rparr>)) ! 0))
    \<and> units (yearly (buildScenarioResult64 pow64 one_general zero_cost unit_market next_revenue triple_scenario) ! 0) = dmul (adoptionMultiplier triple_scenario) (units (yearly (buildScenarioResult64 pow64 one_general zero_cost unit_market next_revenue
           (triple_scenario\<lparr>adoptionMultiplier := 1, priceMultiplier := 1\<rparr>)) ! 0))
    \<and> revenue (yearly (buildScenarioResult64 pow64 one_general zero_cost unit_market next_revenue triple_scenario) ! 0) = dmul (pricePerUnit (yearly (buildScenarioResult64 pow64 one_general zero_cost unit_market next_revenue triple_scenario) ! 0)) (units (yearly (buildScenarioResult64 pow64 one_general zero_cost unit_market next_revenue triple_scenario) ! 0))"
    by blast
  then have a: "pricePerUnit (yearly (buildScenarioResult64 pow64 one_general zero_cost unit_market next_revenue triple_scenario) ! 0) = dmul 3 (4503599627370497 / 4503599627370496)
    \<and> units (yearly (buildScenarioResult64 pow64 one_general zero_cost unit_market next_revenue triple_scenario) ! 0) = dmul 3 1
    \<and> revenue (yearly (buildScenarioResult64 pow64 one_general zero_cost unit_market next_revenue triple_scenario) ! 0) = dmul (3377699720527873 / 1125899906842624) 3"
    by (simp only: triple_baseline_row64 triple_row64 triple_scenario_multipliers)
  have "(0::nat) < length (yearly (buildScenarioResult one_general zero_cost unit_market next_revenue triple_scenario))"
    by (simp add: build_length one_general_def)
  with t have "revenue (yearly (buildScenarioResult one_general zero_cost unit_market next_revenue triple_scenario) ! 0) =
      priceMultiplier triple_scenario * adoptionMultiplier triple_scenario
        * revenue (yearly (buildScenarioResult one_general zero_cost unit_market next_revenue
           (triple_scenario\<lparr>adoptionMultiplier := 1, priceMultiplier := 1\<rparr>)) ! 0)"
    by blast
  then have b: "revenue (yearly (buildScenarioResult one_general zero_cost unit_market next_revenue triple_scenario) ! 0) = 3 * 3 * revenue (yearly (buildScenarioResult one_general zero_cost unit_market next_revenue
           (triple_scenario\<lparr>adoptionMultiplier := 1, priceMultiplier := 1\<rparr>)) ! 0)"
    by (simp only: triple_scenario_multipliers)
  have one: "priceMultiplier ex_scenario = 1 \<and> adoptionMultiplier ex_scenario = 1"
    by (simp add: ex_scenario_multipliers)
  have "(0::nat) < length (yearly (buildScenarioResult64 pow64 one_general zero_cost unit_market next_revenue ex_scenario))"
    by (simp add: build64_length one_general_def)
  with t' one have "pricePerUnit (yearly (buildScenarioResult64 pow64 one_general zero_cost unit_market next_revenue ex_scenario) ! 0) =
        dmul (basePricePerUnit next_revenue)
          (pow64 (dadd 1 (ddiv (annualPriceGrowthPct next_revenue) 100)) 0)
    \<and> units (yearly (buildScenarioResult64 pow64 one_general zero_cost unit_market next_revenue ex_scenario) ! 0) =
        dmul (dmul (dmul (nth_or_zero (tamUnitsPerYear unit_market) 0) (ddiv (samPct unit_market) 100))
                (ddiv (somPct unit_market) 100))
          (ddiv (nth_or_zero (adoptionPctPerYear unit_market) 0) 100)"
    by blast
  then have c: "pricePerUnit (yearly (buildScenarioResult64 pow64 one_general zero_cost unit_market next_revenue ex_scenario) ! 0) = 4503599627370497 / 4503599627370496
    \<and> units (yearly (buildScenarioResult64 pow64 one_general zero_cost unit_market next_revenue ex_scenario) ! 0) = 1"
    by (simp add: row64_defs unit_market_def next_revenue_def round64_next_up)
  from a b c one show ?thesis by blast
qed

text \<open>
  Claim C8. \<^verbatim>\<open>buildScenarioResult\<close> returns a row for every year of the horizon also
  when a per-year sequence is shorter than the horizon: at an index at or beyond the
  length of \<^verbatim>\<open>tamUnitsPerYear\<close> the TAM is 0, at an index at or beyond the length of
  \<^verbatim>\<open>adoptionPctPerYear\<close> the adoption percentage is 0, and such a year has units 0,
  revenue 0 and net profit \<^verbatim>\<open>-annualFixedOpex\<close>.
\<close>

theorem short_sequences_default_to_zero:
  "length (yearly (buildScenarioResult g c m r s)) = nat \<lceil>years g\<rceil>
   \<and> (\<forall>k<length (yearly (buildScenarioResult g c m r s)).
        (length (tamUnitsPerYear m) \<le> k \<longrightarrow> nth_or_zero (tamUnitsPerYear m) k = 0)
      \<and> (length (adoptionPctPerYear m) \<le> k \<longrightarrow> nth_or_zero (adoptionPctPerYear m) k = 0)
      \<and> (length (tamUnitsPerYear m) \<le> k \<or> length (adoptionPctPerYear m) \<le> k \<longrightarrow>
            units (yearly (buildScenarioResult g c m r s) ! k) = 0
          \<and> revenue (yearly (buildScenarioResult g c m r s) ! k) = 0
          \<and> netProfit (yearly (buildScenarioResult g c m r s) ! k) = - annualFixedOpex c))"
  by (intro conjI allI impI)
     (auto simp add: build_length build_row yearRow_def netProfitAt_def unitsAt_def
        nth_or_zero_def)

theorem short_sequences_default_to_zero_witness:
  "length (yearly (buildScenarioResult short_general dip_cost short_market ex_revenue ex_scenario)) = 3
   \<and> length (tamUnitsPerYear short_market) \<le> 1
   \<and> units (yearly (buildScenarioResult short_general dip_cost short_market ex_revenue ex_scenario) ! 1) = 0 \<and> revenue (yearly (buildScenarioResult short_general dip_cost short_market ex_revenue ex_scenario) ! 1) = 0
   \<and> netProfit (yearly (buildScenarioResult short_general dip_cost short_market ex_revenue ex_scenario) ! 1) = - 500
   \<and> length (adoptionPctPerYear short_market) \<le> 2
   \<and> units (yearly (buildScenarioResult short_general dip_cost short_market ex_revenue ex_scenario) ! 2) = 0 \<and> revenue (yearly (buildScenarioResult short_general dip_cost short_market ex_revenue ex_scenario) ! 2) = 0
   \<and> netProfit (yearly (buildScenarioResult short_general dip_cost short_market ex_revenue ex_scenario) ! 2) = - 500"
proof -
  note t = short_sequences_default_to_zero
    [of short_general dip_cost short_market ex_revenue ex_scenario]
  have a: "length (tamUnitsPerYear short_market) \<le> 1"
    and b: "length (adoptionPctPerYear short_market) \<le> 2"
    by (simp_all add: short_market_def)
  have len: "length (yearly (buildScenarioResult short_general dip_cost short_market ex_revenue ex_scenario)) = 3"
    using t by (simp add: short_general_def)
  then have "(1::nat) < length (yearly (buildScenarioResult short_general dip_cost short_market ex_revenue ex_scenario))" and "(2::nat) < length (yearly (buildScenarioResult short_general dip_cost short_market ex_revenue ex_scenario))"
    by simp_all
  with t a b have "units (yearly (buildScenarioResult short_general dip_cost short_market ex_revenue ex_scenario) ! 1) = 0 \<and> revenue (yearly (buildScenarioResult short_general dip_cost short_market ex_revenue ex_scenario) ! 1) = 0
      \<and> netProfit (yearly (buildScenarioResult short_general dip_cost short_market ex_revenue ex_scenario) ! 1) = - annualFixedOpex dip_cost
      \<and> units (yearly (buildScenarioResult short_general dip_cost short_market ex_revenue ex_scenario) ! 2) = 0 \<and> revenue (yearly (buildScenarioResult short_general dip_cost short_market ex_revenue ex_scenario) ! 2) = 0
      \<and> netProfit (yearly (buildScenarioResult short_general dip_cost short_market ex_revenue ex_scenario) ! 2) = - annualFixedOpex dip_cost"
    by blast
  then show ?thesis
    using a b len by (simp add: dip_cost_def)
qed

text \<open>
  Claim C9. The cost fields of the product type that is not selected do not influence
  the result. For software, two calls that differ only in \<^verbatim>\<open>manufacturingCostPerUnit\<close>,
  \<^verbatim>\<open>shippingCostPerUnit\<close> or \<^verbatim>\<open>packagingCostPerUnit\<close> return the same result; for
  hardware, two calls that differ only in \<^verbatim>\<open>infraCostPerUser\<close> or
  \<^verbatim>\<open>licenseCostPerUser\<close> return the same result.
\<close>

theorem unselected_cost_path_noninterference:
  "(productType g = software \<longrightarrow>
      buildScenarioResult g
        (c\<lparr>manufacturingCostPerUnit := a, shippingCostPerUnit := b, packagingCostPerUnit := d\<rparr>)
        m r s
      = buildScenarioResult g c m r s)
   \<and> (productType g = hardware \<longrightarrow>
      buildScenarioResult g (c\<lparr>infraCostPerUser := a, licenseCostPerUser := b\<rparr>) m r s
      = buildScenarioResult g c m r s)"
proof (intro conjI impI)
  assume "productType g = software"
  then show "buildScenarioResult g
        (c\<lparr>manufacturingCostPerUnit := a, shippingCostPerUnit := b, packagingCostPerUnit := d\<rparr>)
        m r s
      = buildScenarioResult g c m r s"
    by (intro build_cost_cong) simp_all
next
  assume "productType g = hardware"
  then show "buildScenarioResult g (c\<lparr>infraCostPerUser := a, licenseCostPerUser := b\<rparr>) m r s
      = buildScenarioResult g c m r s"
    by (intro build_cost_cong) simp_all
qed

theorem unselected_cost_path_noninterference_witness:
  "productType ex_general = software
   \<and> buildScenarioResult ex_general
        (ex_cost\<lparr>manufacturingCostPerUnit := 7, shippingCostPerUnit := 8, packagingCostPerUnit := 9\<rparr>)
        ex_market ex_revenue ex_scenario
      = (buildScenarioResult ex_general ex_cost ex_market ex_revenue ex_scenario)
   \<and> productType hw_general = hardware
   \<and> buildScenarioResult hw_general (ex_cost\<lparr>infraCostPerUser := 7, licenseCostPerUser := 8\<rparr>)
        ex_market ex_revenue ex_scenario
      = (buildScenarioResult hw_general ex_cost ex_market ex_revenue ex_scenario)"
proof -
  have a: "productType ex_general = software"
    by (simp add: ex_general_def)
  have b: "productType hw_general = hardware"
    by (simp add: hw_general_def)
  from a b
    unselected_cost_path_noninterference
      [where g = ex_general and c = ex_cost and a = 7 and b = 8 and d = 9
         and m = ex_market and r = ex_revenue and s = ex_scenario]
    unselected_cost_path_noninterference
      [where g = hw_general and c = ex_cost and a = 7 and b = 8 and d = 9
         and m = ex_market and r = ex_revenue and s = ex_scenario]
  show ?thesis by blast
qed

text \<open>
  Claim C10, as stated: whenever \<^verbatim>\<open>paybackYear\<close> is present, \<open>1 \<le> paybackYear \<le>
  horizon\<close>. The loop test \<^verbatim>\<open>i < years\<close> admits one more iteration than a fractional
  horizon has whole years: with a horizon of two and a half years the loop runs three
  times, and the payback year can be 3.
\<close>

theorem paybackYear_exceeds_fractional_horizon:
  "paybackYear (buildScenarioResult frac_general ex_cost frac_market ex_revenue ex_scenario) = Some 3 \<and> \<not> real 3 \<le> years frac_general"
  by (simp add: frac_result) (simp add: frac_general_def)

text \<open>
  Claim C10, amended. Whenever \<^verbatim>\<open>paybackYear\<close> is present it is an integer \<open>p\<close> with
  \<open>1 \<le> p < horizon + 1\<close>, hence \<open>p \<le> horizon\<close> whenever the horizon is an integer. For a
  horizon of 0 or less \<^verbatim>\<open>paybackYear\<close> is absent, also when \<^verbatim>\<open>devCapex +
  launchMarketingCapex\<close> is zero or negative, so that the cumulative cash flow starts at
  0 or above.
\<close>

theorem paybackYear_within_horizon:
  "(paybackYear (buildScenarioResult g c m r s) = Some p \<longrightarrow>
      1 \<le> p \<and> real p < years g + 1 \<and> (\<forall>z::int. years g = of_int z \<longrightarrow> int p \<le> z))
   \<and> (years g \<le> 0 \<longrightarrow> paybackYear (buildScenarioResult g c m r s) = None)"
proof -
  let ?u = "getVariableCostPerUnit (productType g) c"
  let ?R = "runYears c m r s ?u (initState c)"
  let ?n = "nat \<lceil>years g\<rceil>"
  have init: "st_paybackYear (initState c) = None"
    by (simp add: initState_def)
  have rng: "1 \<le> p \<and> p \<le> ?n" if "st_paybackYear (?R ?n) = Some p" for p
    using run_payback_Some [OF init that] by simp
  have a: "1 \<le> p \<and> real p < years g + 1 \<and> (\<forall>z::int. years g = of_int z \<longrightarrow> int p \<le> z)"
    if pb: "paybackYear (buildScenarioResult g c m r s) = Some p"
  proof -
    from pb have "1 \<le> p \<and> p \<le> ?n"
      by (intro rng) (simp add: build_paybackYear)
    then have p1: "1 \<le> p" and pc: "int p \<le> \<lceil>years g\<rceil>"
      by linarith+
    then have "real p < years g + 1"
      by linarith
    moreover have "int p \<le> z" if "years g = of_int z" for z
      using pc that by simp
    ultimately show ?thesis
      using p1 by blast
  qed
  have b: "paybackYear (buildScenarioResult g c m r s) = None" if "years g \<le> 0"
  proof -
    have "\<lceil>years g\<rceil> \<le> 0"
      using that by linarith
    then have "?n = 0"
      by simp
    then show ?thesis
      by (simp add: build_paybackYear init)
  qed
  from a b show ?thesis by blast
qed

theorem paybackYear_within_horizon_witness:
  "paybackYear (buildScenarioResult frac_general ex_cost frac_market ex_revenue ex_scenario) = Some 3 \<and> real 3 < years frac_general + 1
   \<and> paybackYear (buildScenarioResult ex_general ex_cost ex_market ex_revenue ex_scenario) = Some 1 \<and> years ex_general = of_int 2 \<and> int 1 \<le> 2
   \<and> years zero_general \<le> 0
   \<and> - (devCapex free_cost + launchMarketingCapex free_cost) \<ge> 0
   \<and> paybackYear (buildScenarioResult zero_general free_cost ex_market ex_revenue ex_scenario) = None"
proof -
  have f: "paybackYear (buildScenarioResult frac_general ex_cost frac_market ex_revenue ex_scenario) = Some 3"
    by (simp add: frac_result)
  have e: "paybackYear (buildScenarioResult ex_general ex_cost ex_market ex_revenue ex_scenario) = Some 1"
    by (simp add: ex_result)
  have y: "years ex_general = of_int 2"
    by (simp add: ex_general_def)
  have z: "years zero_general \<le> 0"
    by (simp add: zero_general_def)
  note tf = paybackYear_within_horizon [of frac_general ex_cost frac_market ex_revenue ex_scenario 3]
  note te = paybackYear_within_horizon [of ex_general ex_cost ex_market ex_revenue ex_scenario 1]
  note tz = paybackYear_within_horizon [of zero_general free_cost ex_market ex_revenue ex_scenario 0]
  from tf f have "real 3 < years frac_general + 1"
    by blast
  moreover from te e y have "int 1 \<le> 2"
    by blast
  moreover from tz z have "paybackYear (buildScenarioResult zero_general free_cost ex_market ex_revenue ex_scenario) = None"
    by blast
  moreover have "- (devCapex free_cost + launchMarketingCapex free_cost) \<ge> 0"
    by (simp add: free_cost_def)
  ultimately show ?thesis
    using f e y z by blast
qed

end
